theory Spec2Isabelle
  imports Complex_Main "HOL-Library.Multiset" "HOL-Library.Sublist" "HOL-Library.AList"
begin

text \<open>
  A shallow embedding of the collectors of gops: the listing of user applications, open
  ports, open windows and services, and the resource sampler. Each collector is a
  function of the machine it runs on (\<open>world\<close>): the answers of gopsutil and the output
  of the external commands are inputs, and everything the Go code does with them is
  modelled. A fallible call returns \<open>Inl\<close> its error or \<open>Inr\<close> its value; a loop is a
  recursive function, or a \<open>foldl\<close> or \<open>map_filter\<close> over the body of the loop.
\<close>

section \<open>Library functions used by the collectors\<close>

text \<open>
  Go strings are byte sequences, modelled as \<open>string\<close>. The functions of the Go standard
  library that the collectors call are modelled on ASCII input.
\<close>

datatype error = Error string

definition digit :: "nat \<Rightarrow> char" where
  "digit d = ''0123456789'' ! d"

text \<open>The verb \<open>%d\<close> of \<open>fmt.Sprintf\<close> on an unsigned value.\<close>

fun itoa :: "nat \<Rightarrow> string" where
  "itoa n = (if n < 10 then [digit n] else itoa (n div 10) @ [digit (n mod 10)])"

declare itoa.simps [simp del]

text \<open>The lower-case form of a byte: the letters A to Z move, every other byte stays.\<close>

definition toLowerByte :: "char \<Rightarrow> char" where
  "toLowerByte c =
     (case map_of (zip ''ABCDEFGHIJKLMNOPQRSTUVWXYZ'' ''abcdefghijklmnopqrstuvwxyz'') c of
        Some l \<Rightarrow> l
      | None \<Rightarrow> c)"

definition HasPrefix :: "string \<Rightarrow> string \<Rightarrow> bool" where
  "HasPrefix s pre = prefix pre s"

fun Contains :: "string \<Rightarrow> string \<Rightarrow> bool" where
  "Contains [] substr = (substr = [])"
| "Contains (c # s) substr = (prefix substr (c # s) \<or> Contains s substr)"

text \<open>\<open>strings.Join\<close>.\<close>

fun Join :: "string list \<Rightarrow> string \<Rightarrow> string" where
  "Join [] sep = []"
| "Join [x] sep = x"
| "Join (x # y # xs) sep = x @ sep @ Join (y # xs) sep"

text \<open>
  White space as \<open>unicode.IsSpace\<close> sees it in ASCII: tab, line feed, vertical tab, form
  feed, carriage return and space.
\<close>

definition isSpace :: "char \<Rightarrow> bool" where
  "isSpace c = (c \<in> set [CHR 0x09, CHR 0x0A, CHR 0x0B, CHR 0x0C, CHR 0x0D, CHR '' ''])"

definition TrimSpace :: "string \<Rightarrow> string" where
  "TrimSpace s = rev (dropWhile isSpace (rev (dropWhile isSpace s)))"

text \<open>\<open>strings.Trim(s, cutset)\<close>: leading and trailing bytes of the cutset removed.\<close>

definition Trim :: "string \<Rightarrow> string \<Rightarrow> string" where
  "Trim s cutset =
     rev (dropWhile (\<lambda>c. c \<in> set cutset) (rev (dropWhile (\<lambda>c. c \<in> set cutset) s)))"

text \<open>
  \<open>strings.Split(s, sep)\<close> for a separator that is not empty (every call of the program):
  \<open>cur\<close> is the piece read so far.
\<close>

function splitFrom :: "string \<Rightarrow> string \<Rightarrow> string \<Rightarrow> string list" where
  "splitFrom sep cur [] = [cur]"
| "splitFrom sep cur (c # s) =
     (if sep \<noteq> [] \<and> prefix sep (c # s)
      then cur # splitFrom sep [] (drop (length sep) (c # s))
      else splitFrom sep (cur @ [c]) s)"
  by pat_completeness auto
termination
  by (relation "measure (\<lambda>(sep, cur, s). length s)") auto

definition Split :: "string \<Rightarrow> string \<Rightarrow> string list" where
  "Split s sep = splitFrom sep [] s"


text \<open>\<open>strings.Fields\<close>: the maximal runs of bytes that are not white space.\<close>

fun fieldsFrom :: "string \<Rightarrow> string \<Rightarrow> string list" where
  "fieldsFrom cur [] = (if cur = [] then [] else [cur])"
| "fieldsFrom cur (c # s) =
     (if isSpace c then (if cur = [] then fieldsFrom [] s else cur # fieldsFrom [] s)
      else fieldsFrom (cur @ [c]) s)"

definition Fields :: "string \<Rightarrow> string list" where
  "Fields s = fieldsFrom [] s"

text \<open>
  \<open>strconv.ParseInt(s, 10, 32)\<close> returns a value together with its error, and two of its
  callers read the value after a failed parse, so the model returns both. It is
  \<open>ParseUint\<close> after an optional sign: the digits are read from the left, a byte that is
  no digit ends the parse with a syntax error and the value 0, and a value that outgrows
  32 bits ends it with a range error. A range error, or a value outside \<open>int32\<close>, gives
  the nearest bound of \<open>int32\<close>.
\<close>

definition isDigit :: "char \<Rightarrow> bool" where
  "isDigit c = (c \<in> set ''0123456789'')"

definition digitVal :: "char \<Rightarrow> nat" where
  "digitVal c = of_char c - 48"

fun parseUintFrom :: "nat \<Rightarrow> string \<Rightarrow> nat \<times> error option" where
  "parseUintFrom n [] = (n, None)"
| "parseUintFrom n (c # s) =
     (if \<not> isDigit c then (0, Some (Error ''invalid syntax''))
      else if n * 10 + digitVal c > 2 ^ 32 - 1
        then (2 ^ 32 - 1, Some (Error ''value out of range''))
      else parseUintFrom (n * 10 + digitVal c) s)"

definition ParseUint32 :: "string \<Rightarrow> nat \<times> error option" where
  "ParseUint32 s = (if s = [] then (0, Some (Error ''invalid syntax'')) else parseUintFrom 0 s)"

definition ParseInt32 :: "string \<Rightarrow> int \<times> error option" where
  "ParseInt32 s =
     (if s = [] then (0, Some (Error ''invalid syntax''))
      else
        (let neg = (hd s = CHR ''-'');
             digits = (if hd s = CHR ''+'' \<or> hd s = CHR ''-'' then tl s else s);
             (un, err) = ParseUint32 digits
         in if err \<noteq> None \<and> err \<noteq> Some (Error ''value out of range'') then (0, err)
            else if \<not> neg \<and> un \<ge> 2 ^ 31
              then (2 ^ 31 - 1, Some (Error ''value out of range''))
            else if neg \<and> un > 2 ^ 31
              then (- (2 ^ 31), Some (Error ''value out of range''))
            else (if neg then - int un else int un, None)))"

text \<open>
  \<open>math.Round\<close> (halves away from zero) and the verb \<open>%.2f\<close> (two decimals, the exact
  value rounded to the nearest, halves to even) on real numbers. The rounding error of
  floating-point arithmetic is not modelled; no property below depends on the digits
  that \<open>%.2f\<close> prints.
\<close>

definition mathRound :: "real \<Rightarrow> real" where
  "mathRound x = (if x \<ge> 0 then of_int \<lfloor>x + 1 / 2\<rfloor> else of_int \<lceil>x - 1 / 2\<rceil>)"

definition roundHalfEven :: "real \<Rightarrow> int" where
  "roundHalfEven x =
     (let f = \<lfloor>x\<rfloor>; d = x - of_int f
      in if d < 1 / 2 then f else if d > 1 / 2 then f + 1 else if even f then f else f + 1)"

definition Sprintf_2f :: "real \<Rightarrow> string" where
  "Sprintf_2f x =
     (let n = nat (roundHalfEven (\<bar>x\<bar> * 100))
      in (if x < 0 \<and> n \<noteq> 0 then ''-'' else [])
         @ itoa (n div 100) @ ''.'' @ [digit (n div 10 mod 10), digit (n mod 10)])"

section \<open>Formatting (internal/utils/format.go)\<close>

function formatBytesLoop :: "nat \<Rightarrow> nat \<Rightarrow> nat \<Rightarrow> nat \<times> nat" where
  "formatBytesLoop n dv e =
     (if n \<ge> 1024 then formatBytesLoop (n div 1024) (dv * 1024) (e + 1) else (dv, e))"
  by pat_completeness auto
termination
  by (relation "measure (\<lambda>(n, dv, e). n)") auto

declare formatBytesLoop.simps [simp del]

text \<open>
  \<open>FormatBytes\<close>. A \<open>uint64\<close> leaves the loop with the exponent \<open>e\<close> at most 5, inside the
  string \<open>KMGTPE\<close>.
\<close>

definition FormatBytes :: "nat \<Rightarrow> string" where
  "FormatBytes bytes =
     (if bytes < 1024 then itoa bytes @ '' B''
      else
        (let (dv, e) = formatBytesLoop (bytes div 1024) 1024 0
         in Sprintf_2f (real bytes / real dv) @ '' '' @ [''KMGTPE'' ! e] @ ''B''))"

text \<open>
  \<open>FormatCPU\<close>. Its two comparisons select the same branch on a real as on the
  \<open>float64\<close> with that value: 100 is a \<open>float64\<close>, and the \<open>float64\<close> nearest to 0.01
  lies above 0.01 with no \<open>float64\<close> between them.
\<close>

definition FormatCPU :: "real \<Rightarrow> string" where
  "FormatCPU cpu =
     (if cpu < 0.01 then ''< 0.01%''
      else if cpu \<ge> 100 then ''100%''
      else Sprintf_2f (mathRound (cpu * 100) / 100) @ ''%'')"

section \<open>Data model (pkg/types and the gopsutil values the collectors read)\<close>

text \<open>
  The fixed-width integers of the records (\<open>uint32\<close> ports, \<open>int32\<close> process ids,
  \<open>uint64\<close> byte counts) are only compared, copied and printed, never added to, so they
  are \<open>nat\<close> and \<open>int\<close>. The one narrowing conversion of the program is written out
  where it occurs. \<open>float64\<close> and \<open>float32\<close> samples are \<open>real\<close>.
\<close>

record PortInfo =
  port_Port :: nat
  port_Protocol :: string
  port_PID :: int
  port_Name :: string
  port_Path :: string
  port_State :: string
  port_LocalIP :: string

record ProcessInfo =
  proc_PID :: int
  proc_Name :: string
  proc_Path :: string
  proc_Status :: string
  proc_User :: string
  proc_StartTime :: string

record WindowInfo =
  win_Title :: string
  win_PID :: int
  win_Process :: string
  win_AppName :: string
  win_Geometry :: string

record ResourceUsage =
  ru_PID :: int
  ru_Name :: string
  ru_CPUPercent :: real
  ru_MemoryPercent :: real
  ru_MemoryRSS :: nat
  ru_MemoryVMS :: nat
  ru_MemoryHuman :: string
  ru_CPUHuman :: string
  ru_Threads :: int
  ru_OpenFiles :: int


text \<open>\<open>net.Addr\<close> and \<open>net.ConnectionStat\<close> of gopsutil, the fields that are read.\<close>

record Addr =
  addr_IP :: string
  addr_Port :: nat

record ConnectionStat =
  conn_Laddr :: Addr
  conn_Status :: string
  conn_Pid :: int

record MemoryInfoStat =
  mem_RSS :: nat
  mem_VMS :: nat

text \<open>
  A gopsutil process handle. Each field is what the method of that name returns for the
  handle. A method whose value the program reads only after it has found the error nil
  is a sum: \<open>Inl\<close> the error, \<open>Inr\<close> the value. A method whose value the program also
  reads beside an error that it drops (\<open>name, _ := p.NameWithContext(ctx)\<close> in the
  resource sampler) returns both, as in Go: the value, and the error or \<open>None\<close>.
  \<open>MemoryInfo\<close> returns a pointer, which may be nil without an error.
\<close>

record Process =
  p_Pid :: int
  p_Name :: "string \<times> error option"
  p_Exe :: "error + string"
  p_Status :: "error + string list"
  p_Username :: "error + string"
  p_CreateTime :: "error + int"
  p_CPUPercent :: "real \<times> error option"
  p_MemoryPercent :: "real \<times> error option"
  p_MemoryInfo :: "error + MemoryInfoStat option"
  p_NumThreads :: "int \<times> error option"
  p_NumFDs :: "int \<times> error option"

text \<open>The anonymous struct that \<open>getWindowsServices\<close> decodes the JSON output into.\<close>

record ServiceObj =
  so_Name :: string
  so_Status :: string
  so_PID :: int

text \<open>
  The machine as one query sees it: the operating system the binary runs on, the answers
  of gopsutil, the order in which a \<open>range\<close> over the port map of \<open>GetOpenPorts\<close>
  visits its entries (Go leaves it unspecified), what \<open>Output()\<close> returns for each external
  command the collectors run, and what \<open>json.Unmarshal\<close> makes of a text, into a slice
  of \<open>ServiceObj\<close> and into a single one. A query sees one snapshot: the same question
  asked twice has the same answer. The last field is the part of the Go library whose
  tables are not modelled: what \<open>strings.Map(unicode.ToLower, s)\<close> returns.
\<close>

record world =
  GOOS :: string
  net_Connections :: "error + ConnectionStat list"
  process_NewProcess :: "int \<Rightarrow> error + Process"
  process_Processes :: "error + Process list"
  map_range :: "(string \<times> PortInfo) list \<Rightarrow> (string \<times> PortInfo) list"
  osascript_windows :: "error + string"
  osascript_windows_alt :: "error + string"
  pgrep_f :: "string \<Rightarrow> error + string"
  wmctrl_lp :: "error + string"
  ps_comm :: "int \<Rightarrow> error + string"
  powershell_windows :: "error + string"
  launchctl_list :: "error + string"
  systemctl_list_units :: "error + string"
  systemctl_show_MainPID :: "string \<Rightarrow> error + string"
  powershell_services :: "error + string"
  json_Unmarshal_slice :: "string \<Rightarrow> error + ServiceObj list"
  json_Unmarshal_object :: "string \<Rightarrow> error + ServiceObj"
  Map_unicode_ToLower :: "string \<Rightarrow> string"

text \<open>
  \<open>strings.ToLower\<close>, as the library has it: a string of ASCII bytes is lower-cased byte
  by byte, and a string with a byte from 0x80 on goes through
  \<open>strings.Map(unicode.ToLower, s)\<close>, which also lower-cases capital letters outside
  ASCII.
\<close>

definition isASCII :: "char \<Rightarrow> bool" where
  "isASCII c = ((of_char c :: nat) < 128)"

definition ToLower :: "world \<Rightarrow> string \<Rightarrow> string" where
  "ToLower w s = (if list_all isASCII s then map toLowerByte s else Map_unicode_ToLower w s)"

text \<open>A \<open>range\<close> over a map visits every entry exactly once.\<close>

definition range_visits_all :: "world \<Rightarrow> bool" where
  "range_visits_all w = (\<forall>m. mset (map_range w m) = mset m)"

section \<open>Ports (internal/port/port.go)\<close>

definition getProtocol :: "world \<Rightarrow> ConnectionStat \<Rightarrow> string" where
  "getProtocol w conn =
     (if Contains (ToLower w (conn_Status conn)) ''udp'' then ''UDP'' else ''TCP'')"

text \<open>The key of the port map: \<open>fmt.Sprintf("%s:%d", conn.Laddr.IP, port)\<close>.\<close>

definition portKey :: "ConnectionStat \<Rightarrow> string" where
  "portKey conn = addr_IP (conn_Laddr conn) @ '':'' @ itoa (addr_Port (conn_Laddr conn))"

text \<open>The block "Get process info": name and executable path stay empty unless resolved.\<close>

definition procName :: "world \<Rightarrow> ConnectionStat \<Rightarrow> string" where
  "procName w conn =
     (if conn_Pid conn > 0 then
        (case process_NewProcess w (conn_Pid conn) of
           Inl err \<Rightarrow> ''''
         | Inr p \<Rightarrow> (case p_Name p of (name, None) \<Rightarrow> name | (name, Some err) \<Rightarrow> ''''))
      else '''')"

definition exePath :: "world \<Rightarrow> ConnectionStat \<Rightarrow> string" where
  "exePath w conn =
     (if conn_Pid conn > 0 then
        (case process_NewProcess w (conn_Pid conn) of
           Inl err \<Rightarrow> ''''
         | Inr p \<Rightarrow> (case p_Exe p of Inl err \<Rightarrow> '''' | Inr exe \<Rightarrow> exe))
      else '''')"

definition portInfoOf :: "world \<Rightarrow> ConnectionStat \<Rightarrow> PortInfo" where
  "portInfoOf w conn =
     \<lparr> port_Port = addr_Port (conn_Laddr conn),
       port_Protocol = getProtocol w conn,
       port_PID = conn_Pid conn,
       port_Name = procName w conn,
       port_Path = exePath w conn,
       port_State = conn_Status conn,
       port_LocalIP = addr_IP (conn_Laddr conn) \<rparr>"

text \<open>
  One iteration of the collection loop. The port map is an association list;
  \<open>AList.update\<close> overwrites the entry of a key that is present and adds one otherwise.
\<close>

definition portStep ::
  "world \<Rightarrow> (string \<times> PortInfo) list \<Rightarrow> ConnectionStat \<Rightarrow> (string \<times> PortInfo) list" where
  "portStep w portMap conn =
     (if conn_Status conn \<noteq> ''LISTEN'' then portMap
      else if addr_Port (conn_Laddr conn) = 0 then portMap
      else
        (case map_of portMap (portKey conn) of
           Some existing \<Rightarrow>
             if port_Name existing = '''' \<and> procName w conn \<noteq> ''''
             then AList.update (portKey conn) (portInfoOf w conn) portMap
             else portMap
         | None \<Rightarrow> AList.update (portKey conn) (portInfoOf w conn) portMap))"

text \<open>
  The two nested loops that sort by port number:
  \<open>for i := 0; i < len(ports)-1; i++ { for j := i + 1; j < len(ports); j++ { ... } }\<close>,
  swapping \<open>ports[i]\<close> and \<open>ports[j]\<close> when the first has the larger port.
\<close>

function sortInner :: "PortInfo list \<Rightarrow> nat \<Rightarrow> nat \<Rightarrow> PortInfo list" where
  "sortInner ports i j =
     (if j < length ports then
        sortInner
          (if port_Port (ports ! i) > port_Port (ports ! j)
           then ports[i := ports ! j, j := ports ! i] else ports)
          i (j + 1)
      else ports)"
  by pat_completeness auto
termination
  by (relation "measure (\<lambda>(ports, i, j). length ports - j)") auto

declare sortInner.simps [simp del]

function sortOuter :: "PortInfo list \<Rightarrow> nat \<Rightarrow> PortInfo list" where
  "sortOuter ports i =
     (if i + 1 < length ports then sortOuter (sortInner ports i (i + 1)) (i + 1) else ports)"
  by pat_completeness auto
termination
proof (relation "measure (\<lambda>(ports, i). length ports - i)")
  show "wf (measure (\<lambda>(ports :: PortInfo list, i). length ports - i))"
    by simp
next
  fix ports :: "PortInfo list" and i :: nat
  assume less: "i + 1 < length ports"
  have "length (sortInner xs a b) = length xs" for xs a b
    by (induction xs a b rule: sortInner.induct) (subst sortInner.simps, simp)
  then show "((sortInner ports i (i + 1), i + 1), (ports, i))
               \<in> measure (\<lambda>(ports, i). length ports - i)"
    using less by simp
qed

declare sortOuter.simps [simp del]

definition GetOpenPorts :: "world \<Rightarrow> error + PortInfo list" where
  "GetOpenPorts w =
     (case net_Connections w of
        Inl err \<Rightarrow> Inl err
      | Inr connections \<Rightarrow>
          (let portMap = foldl (portStep w) [] connections;
               ports = map snd (map_range w portMap)
           in Inr (sortOuter ports 0)))"

text \<open>The filtering loops of \<open>GetPortInfoByPort\<close> and \<open>GetPortsByPID\<close>.\<close>

definition GetPortInfoByPort :: "world \<Rightarrow> nat \<Rightarrow> error + PortInfo list" where
  "GetPortInfoByPort w port =
     (case GetOpenPorts w of
        Inl err \<Rightarrow> Inl err
      | Inr allPorts \<Rightarrow>
          Inr (foldl (\<lambda>filtered p. if port_Port p = port then filtered @ [p] else filtered)
                 [] allPorts))"

definition GetPortsByPID :: "world \<Rightarrow> int \<Rightarrow> error + PortInfo list" where
  "GetPortsByPID w pid =
     (case GetOpenPorts w of
        Inl err \<Rightarrow> Inl err
      | Inr allPorts \<Rightarrow>
          Inr (foldl (\<lambda>filtered p. if port_PID p = pid then filtered @ [p] else filtered)
                 [] allPorts))"

section \<open>Processes (internal/process/process.go)\<close>

text \<open>\<open>getSystemPrefixes\<close> switches on \<open>runtime.GOOS\<close>, passed here as an argument.\<close>

definition getSystemPrefixes :: "string \<Rightarrow> string list" where
  "getSystemPrefixes os =
     (if os = ''darwin'' then
        [''com.apple'', ''kernel'', ''WindowServer'', ''launchd'', ''syspolicyd'', ''trustd'']
      else if os = ''linux'' then
        [''['', ''kthreadd'', ''ksoftirqd'', ''migration'', ''rcu_'', ''systemd'', ''init'']
      else if os = ''windows'' then
        [''System'', ''smss'', ''csrss'', ''winlogon'', ''services'', ''lsass'', ''svchost'',
         ''spoolsv'', ''SearchIndexer'']
      else [''kernel'', ''init'', ''system''])"

fun anyPrefixOf :: "world \<Rightarrow> string \<Rightarrow> string list \<Rightarrow> bool" where
  "anyPrefixOf w nameLower [] = False"
| "anyPrefixOf w nameLower (pre # rest) =
     (if HasPrefix (ToLower w nameLower) (ToLower w pre) then True
      else anyPrefixOf w nameLower rest)"

definition isSystemProcess :: "world \<Rightarrow> string \<Rightarrow> string list \<Rightarrow> bool" where
  "isSystemProcess w name prefixList = anyPrefixOf w (ToLower w name) prefixList"

definition getSystemUsers :: "string \<Rightarrow> string list" where
  "getSystemUsers os =
     (if os = ''darwin'' then
        [''root'', ''_windowserver'', ''_appleevents'', ''_coreaudiod'', ''_securityd'']
      else if os = ''linux'' then
        [''root'', ''daemon'', ''bin'', ''sys'', ''sync'', ''games'', ''man'', ''lp'', ''mail'',
         ''news'', ''uucp'', ''proxy'', ''www-data'', ''backup'', ''list'', ''irc'', ''gnats'',
         ''nobody'']
      else if os = ''windows'' then [''SYSTEM'', ''LOCAL SERVICE'', ''NETWORK SERVICE'']
      else [''root'', ''system'', ''daemon''])"

fun anyUserIs :: "world \<Rightarrow> string \<Rightarrow> string list \<Rightarrow> bool" where
  "anyUserIs w usernameLower [] = False"
| "anyUserIs w usernameLower (sysUser # rest) =
     (if ToLower w sysUser = usernameLower then True else anyUserIs w usernameLower rest)"

definition isSystemUser :: "world \<Rightarrow> string \<Rightarrow> string \<Rightarrow> bool" where
  "isSystemUser w username os = anyUserIs w (ToLower w username) (getSystemUsers os)"

definition formatTime :: "int \<Rightarrow> string" where
  "formatTime timestamp = []"

text \<open>
  The body of the loop over the process table: what one process adds to \<open>userProcs\<close>.
  \<open>None\<close> is a \<open>continue\<close>.
\<close>

definition userProcessInfo :: "world \<Rightarrow> Process \<Rightarrow> ProcessInfo option" where
  "userProcessInfo w p =
     (case p_Name p of
        (name, Some err) \<Rightarrow> None
      | (name, None) \<Rightarrow>
          if isSystemProcess w name (getSystemPrefixes (GOOS w)) then None
          else
            (case p_Exe p of
               Inl err \<Rightarrow> None
             | Inr exe \<Rightarrow>
                 (let username = (case p_Username p of Inl err \<Rightarrow> [] | Inr u \<Rightarrow> u);
                      systemUser =
                        (case p_Username p of
                           Inl err \<Rightarrow> False
                         | Inr u \<Rightarrow> isSystemUser w u (GOOS w))
                  in if systemUser then None
                     else if username = [] then None
                     else
                       Some \<lparr> proc_PID = p_Pid p,
                              proc_Name = name,
                              proc_Path = exe,
                              proc_Status =
                                (case p_Status p of Inl err \<Rightarrow> [] | Inr st \<Rightarrow> Join st '',''),
                              proc_User = username,
                              proc_StartTime =
                                (case p_CreateTime p of
                                   Inl err \<Rightarrow> []
                                 | Inr st \<Rightarrow> formatTime st) \<rparr>)))"

definition collectUserProcs :: "world \<Rightarrow> ProcessInfo list \<Rightarrow> Process \<Rightarrow> ProcessInfo list" where
  "collectUserProcs w userProcs p =
     (case userProcessInfo w p of None \<Rightarrow> userProcs | Some info \<Rightarrow> userProcs @ [info])"

text \<open>
  \<open>sort.Slice\<close> with the comparison \<open>userProcs[i].PID < userProcs[j].PID\<close> is the
  library's sort by that key, here \<open>sort_key\<close>. \<open>sort.Slice\<close> is not stable; nothing
  below depends on the order of records with equal pids.
\<close>

definition GetUserApplications :: "world \<Rightarrow> error + ProcessInfo list" where
  "GetUserApplications w =
     (case process_Processes w of
        Inl err \<Rightarrow> Inl err
      | Inr procs \<Rightarrow> Inr (sort_key proc_PID (foldl (collectUserProcs w) [] procs)))"

section \<open>Resource usage (internal/resource/resource.go)\<close>

text \<open>
  \<open>v, _ := f()\<close>: the error is dropped and the value that came with it is read,
  whatever it is (\<open>fst\<close> of the pair). Only the process handle and the memory information
  are checked for an error.
\<close>

definition GetProcessResourceUsage :: "world \<Rightarrow> int \<Rightarrow> error + ResourceUsage" where
  "GetProcessResourceUsage w pid =
     (case process_NewProcess w pid of
        Inl err \<Rightarrow> Inl err
      | Inr p \<Rightarrow>
          (let name = fst (p_Name p);
               cpuPercent = fst (p_CPUPercent p);
               memPercent = fst (p_MemoryPercent p)
           in case p_MemoryInfo p of
                Inl err \<Rightarrow> Inl err
              | Inr memInfo \<Rightarrow>
                  (let memoryRSS = (case memInfo of None \<Rightarrow> 0 | Some mi \<Rightarrow> mem_RSS mi);
                       memoryVMS = (case memInfo of None \<Rightarrow> 0 | Some mi \<Rightarrow> mem_VMS mi);
                       memoryHuman = FormatBytes memoryRSS;
                       cpuHuman = FormatCPU cpuPercent;
                       threads = fst (p_NumThreads p);
                       openFiles = fst (p_NumFDs p)
                   in Inr \<lparr> ru_PID = pid,
                            ru_Name = name,
                            ru_CPUPercent = cpuPercent,
                            ru_MemoryPercent = memPercent,
                            ru_MemoryRSS = memoryRSS,
                            ru_MemoryVMS = memoryVMS,
                            ru_MemoryHuman = memoryHuman,
                            ru_CPUHuman = cpuHuman,
                            ru_Threads = threads,
                            ru_OpenFiles = openFiles \<rparr>)))"

section \<open>Services (internal/service/service.go)\<close>

text \<open>
  The repository holds two copies of this file with the same macOS and Linux collectors.
  The Windows collector modelled here is the one that decodes the JSON output; the other
  copy runs its command and returns an empty list.
\<close>









section \<open>Windows (internal/window/window.go)\<close>

definition getPIDForApp :: "world \<Rightarrow> string \<Rightarrow> int" where
  "getPIDForApp w appName =
     (case pgrep_f w appName of
        Inl err \<Rightarrow> 0
      | Inr output \<Rightarrow> fst (ParseInt32 (TrimSpace output)))"

definition getProcessName :: "world \<Rightarrow> int \<Rightarrow> string" where
  "getProcessName w pid =
     (if GOOS w = ''linux'' then
        (case ps_comm w pid of Inr output \<Rightarrow> TrimSpace output | Inl err \<Rightarrow> [])
      else [])"

text \<open>One piece of the first osascript output, which is split at \<open>", "\<close>.\<close>

definition macOSWindow :: "world \<Rightarrow> string \<Rightarrow> WindowInfo option" where
  "macOSWindow w line0 =
     (let line = TrimSpace line0
      in if line = [] \<or> Contains line ''missing value'' then None
         else if Contains line ''text'' then None
         else
           (let parts = Split line '',''
            in if length parts \<ge> 2 then
                 (let appName = TrimSpace (Trim (parts ! 0) [CHR 0x22]);
                      title = TrimSpace
                                (Trim (Join (drop 1 (take (length parts - 1) parts)) '','')
                                   [CHR 0x22]);
                      pid = (if length parts \<ge> 3 then
                               (case ParseInt32 (TrimSpace (parts ! (length parts - 1))) of
                                  (p, None) \<Rightarrow> p
                                | (p, Some err) \<Rightarrow> getPIDForApp w appName)
                             else getPIDForApp w appName)
                  in if appName \<noteq> [] \<and> title \<noteq> [] then
                       Some \<lparr> win_Title = title, win_PID = pid, win_Process = appName,
                              win_AppName = appName, win_Geometry = [] \<rparr>
                     else None)
               else None))"

text \<open>One line of the second osascript output, with \<open>|\<close> between the fields.\<close>

definition macOSWindowAlt :: "world \<Rightarrow> string \<Rightarrow> WindowInfo option" where
  "macOSWindowAlt w line0 =
     (let line = TrimSpace line0
      in if line = [] then None
         else
           (let parts = Split line ''|''
            in if length parts \<ge> 3 then
                 (let appName = TrimSpace (parts ! 0);
                      title = TrimSpace (parts ! 1);
                      pidStr = TrimSpace (parts ! 2);
                      pid = (case ParseInt32 pidStr of
                               (p, None) \<Rightarrow> p
                             | (p, Some err) \<Rightarrow> getPIDForApp w appName)
                  in if appName \<noteq> [] \<and> title \<noteq> [] then
                       Some \<lparr> win_Title = title, win_PID = pid, win_Process = appName,
                              win_AppName = appName, win_Geometry = [] \<rparr>
                     else None)
               else None))"

definition getMacOSWindowsAlt :: "world \<Rightarrow> error + WindowInfo list" where
  "getMacOSWindowsAlt w =
     (case osascript_windows_alt w of
        Inl err \<Rightarrow> Inl err
      | Inr output \<Rightarrow>
          Inr (List.map_filter (macOSWindowAlt w) (Split (TrimSpace output) [CHR 0x0A])))"

definition getMacOSWindows :: "world \<Rightarrow> error + WindowInfo list" where
  "getMacOSWindows w =
     (case osascript_windows w of
        Inl err \<Rightarrow> Inl err
      | Inr output \<Rightarrow>
          (let windows = List.map_filter (macOSWindow w) (Split (TrimSpace output) '', '')
           in if length windows = 0 then getMacOSWindowsAlt w else Inr windows))"

text \<open>One line of \<open>wmctrl -lp\<close>: window id, desktop, pid, host, title.\<close>

definition linuxWindow :: "world \<Rightarrow> string \<Rightarrow> WindowInfo option" where
  "linuxWindow w line =
     (let parts = Fields line
      in if length parts \<ge> 5 then
           (let pidStr = parts ! 2;
                pid = fst (ParseInt32 pidStr);
                title = Join (drop 4 parts) '' '';
                procName = getProcessName w pid
            in Some \<lparr> win_Title = title, win_PID = pid, win_Process = procName,
                      win_AppName = procName, win_Geometry = [] \<rparr>)
         else None)"

definition getLinuxWindows :: "world \<Rightarrow> error + WindowInfo list" where
  "getLinuxWindows w =
     (case wmctrl_lp w of
        Inl err \<Rightarrow> Inl err
      | Inr output \<Rightarrow>
          Inr (List.map_filter (linuxWindow w) (Split (TrimSpace output) [CHR 0x0A])))"

text \<open>One line of the PowerShell output: pid, process name, main window title.\<close>

definition windowsWindow :: "string \<Rightarrow> WindowInfo option" where
  "windowsWindow line0 =
     (let line = TrimSpace line0
      in if line = [] then None
         else
           (let parts = Split line ''|''
            in if length parts \<ge> 3 then
                 (let pidStr = TrimSpace (parts ! 0);
                      processName = TrimSpace (parts ! 1);
                      title = TrimSpace (parts ! 2)
                  in case ParseInt32 pidStr of
                       (pid, Some err) \<Rightarrow> None
                     | (pid, None) \<Rightarrow>
                         Some \<lparr> win_Title = title, win_PID = pid, win_Process = processName,
                                win_AppName = processName, win_Geometry = [] \<rparr>)
               else None))"

definition getWindowsWindows :: "world \<Rightarrow> error + WindowInfo list" where
  "getWindowsWindows w =
     (case powershell_windows w of
        Inl err \<Rightarrow> Inl err
      | Inr output \<Rightarrow>
          Inr (List.map_filter windowsWindow (Split (TrimSpace output) [CHR 0x0A])))"

definition GetOpenWindows :: "world \<Rightarrow> error + WindowInfo list" where
  "GetOpenWindows w =
     (if GOOS w = ''darwin'' then getMacOSWindows w
      else if GOOS w = ''linux'' then getLinuxWindows w
      else if GOOS w = ''windows'' then getWindowsWindows w
      else Inr [])"

section \<open>Notions used to state the properties\<close>

text \<open>
  The owning user of a process as the loop of \<open>GetUserApplications\<close> holds it in
  \<open>username\<close>: empty unless the lookup returned without error.
\<close>

definition owningUser :: "Process \<Rightarrow> string" where
  "owningUser p = (case p_Username p of Inl err \<Rightarrow> [] | Inr u \<Rightarrow> u)"

text \<open>The number that a string of decimal digits denotes, to read a port back from a key.\<close>

definition decVal :: "string \<Rightarrow> nat" where
  "decVal s = foldl (\<lambda>a c. 10 * a + digitVal c) 0 s"

text \<open>
  \<open>sameKey ip port\<close> holds of the raw listening connections with the natural key
  \<open>(ip, port)\<close>; \<open>kept k\<close> of the connections that reach the port map under the key
  string \<open>k\<close>. Among colliding connections \<open>cs\<close>, in the order of the input, \<open>winner\<close>
  is the first whose process name resolved, or the first of all when none did.
\<close>

definition sameKey :: "string \<Rightarrow> nat \<Rightarrow> ConnectionStat \<Rightarrow> bool" where
  "sameKey ip port conn =
     (conn_Status conn = ''LISTEN'' \<and> addr_IP (conn_Laddr conn) = ip
      \<and> addr_Port (conn_Laddr conn) = port)"

definition kept :: "string \<Rightarrow> ConnectionStat \<Rightarrow> bool" where
  "kept k conn =
     (conn_Status conn = ''LISTEN'' \<and> addr_Port (conn_Laddr conn) \<noteq> 0 \<and> portKey conn = k)"

definition winner :: "world \<Rightarrow> ConnectionStat list \<Rightarrow> ConnectionStat" where
  "winner w cs =
     (case find (\<lambda>c. procName w c \<noteq> []) cs of Some c \<Rightarrow> c | None \<Rightarrow> hd cs)"

section \<open>Sample machines\<close>

text \<open>
  Concrete inputs for the scenarios of the specification: a web server that listens on
  port 8080 and uses two and a half cores, a desktop user, a process table with a system
  daemon, and a service whose process has gone.
\<close>

definition nginx :: Process where
  "nginx = \<lparr> p_Pid = 42, p_Name = (''nginx'', None), p_Exe = Inr ''/usr/sbin/nginx'',
              p_Status = Inr [''S''], p_Username = Inr ''www'', p_CreateTime = Inr 1700000000,
              p_CPUPercent = (250, None), p_MemoryPercent = (3, None),
              p_MemoryInfo = Inr (Some \<lparr> mem_RSS = 512, mem_VMS = 4096 \<rparr>),
              p_NumThreads = (4, None),
              p_NumFDs = (0, Some (Error ''not implemented'')) \<rparr>"

definition systemd :: Process where
  "systemd = \<lparr> p_Pid = 100, p_Name = (''systemd'', None),
                p_Exe = Inr ''/usr/lib/systemd/systemd'',
                p_Status = Inr [''S''], p_Username = Inr ''root'', p_CreateTime = Inr 1700000000,
                p_CPUPercent = (0, None), p_MemoryPercent = (0, None),
                p_MemoryInfo = Inr (Some \<lparr> mem_RSS = 100, mem_VMS = 200 \<rparr>),
                p_NumThreads = (1, None), p_NumFDs = (10, None) \<rparr>"

definition chrome :: Process where
  "chrome = \<lparr> p_Pid = 4000, p_Name = (''Chrome'', None), p_Exe = Inr ''/usr/bin/chrome'',
               p_Status = Inr [''R''], p_Username = Inr ''alice'', p_CreateTime = Inr 1700000000,
               p_CPUPercent = (12, None), p_MemoryPercent = (5, None),
               p_MemoryInfo = Inl (Error ''permission denied''),
               p_NumThreads = (30, None), p_NumFDs = (200, None) \<rparr>"

text \<open>A process of alice whose executable path cannot be read, and one whose path reads
  as the empty string.\<close>

definition defunct :: Process where
  "defunct = chrome \<lparr> p_Pid := 5000, p_Name := (''defunct'', None),
                       p_Exe := Inl (Error ''no such file'') \<rparr>"

definition pathless :: Process where
  "pathless = chrome \<lparr> p_Pid := 6000, p_Name := (''helper'', None), p_Exe := Inr [] \<rparr>"

definition listening :: "string \<Rightarrow> nat \<Rightarrow> int \<Rightarrow> ConnectionStat" where
  "listening ip port pid =
     \<lparr> conn_Laddr = \<lparr> addr_IP = ip, addr_Port = port \<rparr>, conn_Status = ''LISTEN'',
       conn_Pid = pid \<rparr>"

definition established :: "string \<Rightarrow> nat \<Rightarrow> int \<Rightarrow> ConnectionStat" where
  "established ip port pid =
     \<lparr> conn_Laddr = \<lparr> addr_IP = ip, addr_Port = port \<rparr>, conn_Status = ''ESTABLISHED'',
       conn_Pid = pid \<rparr>"

definition machine :: world where
  "machine =
     \<lparr> GOOS = ''linux'',
       net_Connections =
         Inr [listening ''0.0.0.0'' 8080 0, listening ''0.0.0.0'' 8080 42,
              established ''10.0.0.1'' 443 42, listening ''127.0.0.1'' 22 7],
       process_NewProcess =
         (\<lambda>pid. if pid = 42 then Inr nginx
                else if pid = 4000 then Inr chrome
                else Inl (Error ''process does not exist'')),
       process_Processes = Inr [chrome, systemd, nginx],
       map_range = rev,
       osascript_windows = Inl (Error ''executable file not found''),
       osascript_windows_alt = Inl (Error ''executable file not found''),
       pgrep_f = (\<lambda>app. Inl (Error ''exit status 1'')),
       wmctrl_lp = Inr (''0x01 0 4000 pc Inbox'' @ [CHR 0x0A] @ ''0x02 0 0 pc Desktop''
                        @ [CHR 0x0A]),
       ps_comm = (\<lambda>pid. if pid = 4000 then Inr (''chrome'' @ [CHR 0x0A])
                          else Inl (Error ''exit status 1'')),
       powershell_windows = Inl (Error ''executable file not found''),
       launchctl_list = Inl (Error ''executable file not found''),
       systemctl_list_units =
         Inr (''web.service loaded active running'' @ [CHR 0x0A]
              @ ''cron.service loaded active running'' @ [CHR 0x0A]),
       systemctl_show_MainPID =
         (\<lambda>unit. if unit = ''web.service'' then Inr (''42'' @ [CHR 0x0A])
                 else if unit = ''cron.service'' then Inr (''7'' @ [CHR 0x0A])
                 else Inr (''0'' @ [CHR 0x0A])),
       powershell_services = Inl (Error ''executable file not found''),
       json_Unmarshal_slice = (\<lambda>text. Inl (Error ''invalid character'')),
       json_Unmarshal_object = (\<lambda>text. Inl (Error ''invalid character'')),
       Map_unicode_ToLower = (\<lambda>s. s) \<rparr>"

text \<open>
  A process whose open files are counted in part before the count fails: the getter
  returns 3 together with its error.
\<close>

definition busy :: Process where
  "busy = nginx \<lparr> p_Pid := 43, p_Name := (''busy'', None),
                   p_NumFDs := (3, Some (Error ''permission denied'')) \<rparr>"

definition machine_busy :: world where
  "machine_busy = machine \<lparr> process_NewProcess := (\<lambda>pid. Inr busy) \<rparr>"

text \<open>
  A process of alice whose name starts with the capital dotted I (the bytes C4 B0), on a
  machine whose Unicode tables lower-case that name to \<open>init\<close>.
\<close>

definition dotted :: Process where
  "dotted = chrome \<lparr> p_Pid := 7000, p_Name := ([CHR 0xC4, CHR 0xB0] @ ''NIT'', None) \<rparr>"

definition machine_unicode :: world where
  "machine_unicode =
     machine \<lparr> process_Processes := Inr [dotted],
               Map_unicode_ToLower :=
                 (\<lambda>s. if s = [CHR 0xC4, CHR 0xB0] @ ''NIT'' then ''init'' else s) \<rparr>"

text \<open>Two listening sockets that gopsutil reports with port 0.\<close>

definition machine_port0 :: world where
  "machine_port0 =
     machine \<lparr> net_Connections := Inr [listening ''0.0.0.0'' 0 0, listening ''0.0.0.0'' 0 42] \<rparr>"

text \<open>The process table with the two processes whose path is missing.\<close>

definition machine_paths :: world where
  "machine_paths = machine \<lparr> process_Processes := Inr [defunct, pathless] \<rparr>"


text \<open>A Windows host whose PowerShell prints a warning instead of JSON.\<close>

definition winhost :: world where
  "winhost = machine \<lparr> GOOS := ''windows'', powershell_services := Inr ''WARNING'',
                        powershell_windows := Inr (''12|shell| '' @ [CHR 0x0A]) \<rparr>"

section \<open>The index into the unit letters\<close>

lemma formatBytesLoop_exp: "n < 1024 ^ (k + 1) \<Longrightarrow> snd (formatBytesLoop n dv e) \<le> e + k"
proof (induction k arbitrary: n dv e)
  case 0
  then show ?case by (subst formatBytesLoop.simps) simp
next
  case (Suc k)
  show ?case
  proof (cases "n \<ge> 1024")
    case False
    then show ?thesis by (subst formatBytesLoop.simps) simp
  next
    case True
    have "n div 1024 < 1024 ^ (k + 1)"
      using Suc.prems by (simp add: less_mult_imp_div_less)
    from Suc.IH[OF this, of "dv * 1024" "e + 1"] True
    show ?thesis by (subst formatBytesLoop.simps) simp
  qed
qed

lemma FormatBytes_index:
  assumes "bytes < 2 ^ 64"
  shows "snd (formatBytesLoop (bytes div 1024) 1024 0) < length ''KMGTPE''"
proof -
  have "bytes div 1024 < 1024 ^ (5 + 1)" using assms by simp
  from formatBytesLoop_exp[OF this, of 1024 0] show ?thesis by simp
qed

section \<open>The sorting loops\<close>

lemma length_sortInner: "length (sortInner ports i j) = length ports"
  by (induction ports i j rule: sortInner.induct) (subst sortInner.simps, simp)

text \<open>
  One run of the inner loop leaves the slice before \<open>i\<close> alone, permutes the rest, and
  puts a record with the least port of the rest at \<open>i\<close>.
\<close>

lemma sortInner_props:
  assumes "i < j" "j \<le> length xs"
    and "\<forall>k. i < k \<and> k < j \<longrightarrow> port_Port (xs ! i) \<le> port_Port (xs ! k)"
  shows "take i (sortInner xs i j) = take i xs
       \<and> mset (drop i (sortInner xs i j)) = mset (drop i xs)
       \<and> (\<forall>k. i < k \<and> k < length xs \<longrightarrow>
            port_Port (sortInner xs i j ! i) \<le> port_Port (sortInner xs i j ! k))"
  using assms
proof (induction xs i j rule: sortInner.induct)
  case (1 ports i j)
  show ?case
  proof (cases "j < length ports")
    case False
    with "1.prems" have "j = length ports" by simp
    with "1.prems" False show ?thesis by (subst (1 2 3 4) sortInner.simps) simp
  next
    case True
    define ys where "ys = (if port_Port (ports ! i) > port_Port (ports ! j)
           then ports[i := ports ! j, j := ports ! i] else ports)"
    have len: "length ys = length ports" by (simp add: ys_def)
    have step: "sortInner ports i j = sortInner ys i (j + 1)"
      using True by (subst sortInner.simps) (simp add: ys_def)
    have tk: "take i ys = take i ports" using "1.prems"(1) by (simp add: ys_def)
    have ms: "mset (drop i ys) = mset (drop i ports)"
    proof (cases "port_Port (ports ! i) > port_Port (ports ! j)")
      case False then show ?thesis by (simp add: ys_def)
    next
      case gt: True
      have "drop i (ports[i := ports ! j, j := ports ! i])
            = (drop i ports)[0 := drop i ports ! (j - i), j - i := drop i ports ! 0]"
        using "1.prems"(1) True by (simp add: drop_update_swap)
      moreover have "mset ((drop i ports)[0 := drop i ports ! (j - i), j - i := drop i ports ! 0])
            = mset (drop i ports)"
        using "1.prems"(1) True by (intro mset_swap) auto
      ultimately show ?thesis using gt by (simp add: ys_def)
    qed
    have inv: "\<forall>k. i < k \<and> k < j + 1 \<longrightarrow> port_Port (ys ! i) \<le> port_Port (ys ! k)"
    proof (intro allI impI)
      fix k assume k: "i < k \<and> k < j + 1"
      show "port_Port (ys ! i) \<le> port_Port (ys ! k)"
      proof (cases "port_Port (ports ! i) > port_Port (ports ! j)")
        case False
        then show ?thesis using k "1.prems"(3) by (cases "k = j") (auto simp: ys_def)
      next
        case gt: True
        have yi: "ys ! i = ports ! j" using gt "1.prems"(1) True by (simp add: ys_def)
        show ?thesis
        proof (cases "k = j")
          case True
          then show ?thesis using gt yi \<open>j < length ports\<close> by (simp add: ys_def)
        next
          case False
          then have "k < j" "i < k" using k by auto
          then have "ys ! k = ports ! k" using gt True by (simp add: ys_def)
          moreover have "port_Port (ports ! i) \<le> port_Port (ports ! k)"
            using "1.prems"(3) \<open>k < j\<close> \<open>i < k\<close> by blast
          ultimately show ?thesis using yi gt by simp
        qed
      qed
    qed
    have IH: "take i (sortInner ys i (j + 1)) = take i ys
       \<and> mset (drop i (sortInner ys i (j + 1))) = mset (drop i ys)
       \<and> (\<forall>k. i < k \<and> k < length ys \<longrightarrow>
            port_Port (sortInner ys i (j + 1) ! i) \<le> port_Port (sortInner ys i (j + 1) ! k))"
      using "1.IH"[OF True] "1.prems"(1) True inv len unfolding ys_def by simp
    show ?thesis using IH step tk ms len by simp
  qed
qed

text \<open>
  The outer loop keeps the slice before \<open>i\<close> sorted and below everything after it.
\<close>

lemma sortOuter_props:
  assumes "i \<le> length xs" "sorted (map port_Port (take i xs))"
    and "\<forall>a\<in>set (take i xs). \<forall>b\<in>set (drop i xs). port_Port a \<le> port_Port b"
  shows "sorted (map port_Port (sortOuter xs i)) \<and> mset (sortOuter xs i) = mset xs"
  using assms
proof (induction xs i rule: sortOuter.induct)
  case (1 ports i)
  show ?case
  proof (cases "i + 1 < length ports")
    case False
    have eq: "sortOuter ports i = ports" using False by (subst sortOuter.simps) simp
    have "length (drop i ports) \<le> 1" using False by simp
    then have sd: "sorted (map port_Port (drop i ports))"
      by (cases "drop i ports") (auto simp: Suc_le_eq)
    have "sorted (map port_Port (take i ports @ drop i ports))"
      unfolding map_append sorted_append using "1.prems" sd by auto
    then show ?thesis using eq by simp
  next
    case True
    define r where "r = sortInner ports i (i + 1)"
    have P: "take i r = take i ports \<and> mset (drop i r) = mset (drop i ports)
       \<and> (\<forall>k. i < k \<and> k < length ports \<longrightarrow> port_Port (r ! i) \<le> port_Port (r ! k))"
      unfolding r_def using True by (intro sortInner_props) auto
    have len: "length r = length ports" by (simp add: r_def length_sortInner)
    have step: "sortOuter ports i = sortOuter r (i + 1)"
      using True by (subst sortOuter.simps) (simp add: r_def)
    have sd: "set (drop i r) = set (drop i ports)" using P by (metis set_mset_mset)
    have "drop i r = r ! i # drop (i + 1) r"
      using True len by (simp add: Cons_nth_drop_Suc)
    then have ri: "r ! i \<in> set (drop i r)" and dr: "set (drop (i + 1) r) \<subseteq> set (drop i r)"
      by (metis list.set_intros(1), metis set_subset_Cons)
    have tk: "take (i + 1) r = take i ports @ [r ! i]"
      using True len P by (simp add: take_Suc_conv_app_nth)
    have s1: "sorted (map port_Port (take (i + 1) r))"
      unfolding tk using "1.prems"(2,3) ri sd by (auto simp: sorted_append)
    have s2: "\<forall>a\<in>set (take (i + 1) r). \<forall>b\<in>set (drop (i + 1) r). port_Port a \<le> port_Port b"
    proof (intro ballI)
      fix a b assume a: "a \<in> set (take (i + 1) r)" and b: "b \<in> set (drop (i + 1) r)"
      from a have "a \<in> set (take i ports) \<or> a = r ! i" unfolding tk by auto
      then show "port_Port a \<le> port_Port b"
      proof
        assume "a \<in> set (take i ports)"
        then show ?thesis using "1.prems"(3) b dr sd by blast
      next
        assume ai: "a = r ! i"
        from b obtain k where "k < length (drop (i + 1) r)" "b = drop (i + 1) r ! k"
          by (metis in_set_conv_nth)
        then have "b = r ! (i + 1 + k)" "i + 1 + k < length ports" using len by auto
        then show ?thesis using P ai by simp
      qed
    qed
    have "sorted (map port_Port (sortOuter r (i + 1))) \<and> mset (sortOuter r (i + 1)) = mset r"
      using "1.IH"[OF True] True len s1 s2 unfolding r_def by simp
    moreover have "mset r = mset ports"
      using P by (metis append_take_drop_id mset_append)
    ultimately show ?thesis using step by simp
  qed
qed

lemma sortOuter_sorted: "sorted (map port_Port (sortOuter xs 0))"
  using sortOuter_props[of 0 xs] by simp

lemma mset_sortOuter: "mset (sortOuter xs 0) = mset xs"
  using sortOuter_props[of 0 xs] by simp

section \<open>The key of the port map determines address and port\<close>

lemma lt10_cases: "(d::nat) < 10 \<Longrightarrow> d \<in> {0, 1, 2, 3, 4, 5, 6, 7, 8, 9}"
  by auto

lemma digitVal_digit: "d < 10 \<Longrightarrow> digitVal (digit d) = d"
  by (drule lt10_cases) (auto simp: digit_def digitVal_def)

lemma digit_not_colon: "d < 10 \<Longrightarrow> digit d \<noteq> CHR '':''"
  by (drule lt10_cases) (auto simp: digit_def)

lemma decVal_itoa: "decVal (itoa n) = n"
proof (induction n rule: itoa.induct)
  case (1 n)
  show ?case
  proof (cases "n < 10")
    case True
    then show ?thesis by (subst itoa.simps) (simp add: decVal_def digitVal_digit)
  next
    case False
    have "decVal (itoa (n div 10) @ [digit (n mod 10)]) = 10 * decVal (itoa (n div 10)) + n mod 10"
      by (simp add: decVal_def digitVal_digit)
    then show ?thesis using False "1.IH" by (subst itoa.simps) simp
  qed
qed

lemma itoa_inject: "itoa n = itoa m \<Longrightarrow> n = m"
  by (metis decVal_itoa)

lemma colon_notin_itoa: "CHR '':'' \<notin> set (itoa n)"
proof (induction n rule: itoa.induct)
  case (1 n)
  show ?case
  proof (cases "n < 10")
    case True
    then show ?thesis using digit_not_colon[of n] by (subst itoa.simps) auto
  next
    case False
    then show ?thesis using "1.IH" digit_not_colon[of "n mod 10"] by (subst itoa.simps) auto
  qed
qed

lemma last_sep_unique:
  assumes "a @ c # s = b @ c # t" "c \<notin> set s" "c \<notin> set t"
  shows "a = b \<and> s = t"
  using assms
proof (induction a arbitrary: b)
  case Nil
  then show ?case by (cases b) auto
next
  case (Cons x a)
  then show ?case by (cases b) auto
qed

lemma kept_sameKey:
  "port \<noteq> 0 \<Longrightarrow> kept (ip @ '':'' @ itoa port) c = sameKey ip port c"
  using last_sep_unique[of "addr_IP (conn_Laddr c)" "CHR '':''" "itoa (addr_Port (conn_Laddr c))"
      ip "itoa port"]
  by (auto simp: kept_def sameKey_def portKey_def colon_notin_itoa dest: itoa_inject)

section \<open>The port map\<close>

lemma find_snoc:
  "find P (xs @ [x]) =
     (case find P xs of Some y \<Rightarrow> Some y | None \<Rightarrow> if P x then Some x else None)"
  by (induction xs) auto

lemma winner_single: "winner w [c] = c"
  by (simp add: winner_def)

lemma winner_snoc:
  assumes "cs \<noteq> []"
  shows "winner w (cs @ [c]) =
     (if procName w (winner w cs) = [] \<and> procName w c \<noteq> [] then c else winner w cs)"
proof (cases "find (\<lambda>c. procName w c \<noteq> []) cs")
  case None
  then have "\<forall>x\<in>set cs. procName w x = []" by (simp add: find_None_iff)
  moreover have "hd cs \<in> set cs" using assms by simp
  ultimately have "procName w (hd cs) = []" by blast
  then show ?thesis using None assms by (simp add: winner_def find_snoc)
next
  case (Some y)
  then have "procName w y \<noteq> []" by (auto simp: find_Some_iff)
  then show ?thesis using Some by (simp add: winner_def find_snoc)
qed

text \<open>Of two colliding connections the later one wins only by bringing the first name.\<close>

lemma winner_two:
  "winner w [c1, c2] = (if procName w c1 = [] \<and> procName w c2 \<noteq> [] then c2 else c1)"
  using winner_snoc[of "[c1]" w c2] by (simp add: winner_single)

lemma set_update_subset: "set (AList.update k v al) \<subseteq> insert (k, v) (set al)"
  by (induction al) auto

lemma portStep_cases:
  "portStep w m c = m
   \<or> (kept (portKey c) c \<and> portStep w m c = AList.update (portKey c) (portInfoOf w c) m)"
  by (auto simp: portStep_def kept_def split: option.splits)

lemma portMap_distinct: "distinct (map fst (foldl (portStep w) [] conns))"
proof (induction conns rule: rev_induct)
  case Nil
  show ?case by simp
next
  case (snoc c conns)
  show ?case using snoc portStep_cases[of w "foldl (portStep w) [] conns" c]
    by (auto simp: distinct_update)
qed

lemma portMap_entries:
  "e \<in> set (foldl (portStep w) [] conns) \<Longrightarrow>
     \<exists>c\<in>set conns. kept (fst e) c \<and> snd e = portInfoOf w c"
proof (induction conns arbitrary: e rule: rev_induct)
  case Nil
  then show ?case by simp
next
  case (snoc c conns)
  let ?m = "foldl (portStep w) [] conns"
  from portStep_cases[of w ?m c] show ?case
  proof
    assume "portStep w ?m c = ?m"
    then show ?thesis using snoc by auto
  next
    assume a: "kept (portKey c) c
               \<and> portStep w ?m c = AList.update (portKey c) (portInfoOf w c) ?m"
    then have "e = (portKey c, portInfoOf w c) \<or> e \<in> set ?m"
      using snoc.prems set_update_subset[of "portKey c" "portInfoOf w c" ?m] by auto
    then show ?thesis using a snoc.IH by auto
  qed
qed

text \<open>What the map holds under a key after the loop has read \<open>conns\<close>.\<close>

lemma portMap_lookup:
  "map_of (foldl (portStep w) [] conns) k =
     (if filter (kept k) conns = [] then None
      else Some (portInfoOf w (winner w (filter (kept k) conns))))"
proof (induction conns rule: rev_induct)
  case Nil
  show ?case by simp
next
  case (snoc c conns)
  let ?m = "foldl (portStep w) [] conns"
  let ?cs = "filter (kept k) conns"
  show ?case
  proof (cases "kept k c")
    case False
    have "map_of (portStep w ?m c) k = map_of ?m k"
    proof (cases "portStep w ?m c = ?m")
      case True then show ?thesis by simp
    next
      case F: False
      then have "kept (portKey c) c"
        "portStep w ?m c = AList.update (portKey c) (portInfoOf w c) ?m"
        using portStep_cases[of w ?m c] by auto
      moreover then have "portKey c \<noteq> k" using False by (auto simp: kept_def)
      ultimately show ?thesis by (simp add: update_conv')
    qed
    then show ?thesis using False snoc by simp
  next
    case True
    then have k: "portKey c = k" and L: "conn_Status c = ''LISTEN''"
      and P: "addr_Port (conn_Laddr c) \<noteq> 0" by (auto simp: kept_def)
    show ?thesis
    proof (cases "?cs = []")
      case E: True
      then have "map_of ?m k = None" using snoc by simp
      then have "portStep w ?m c = AList.update k (portInfoOf w c) ?m"
        using k L P by (simp add: portStep_def)
      then show ?thesis using True E by (simp add: update_conv' winner_single)
    next
      case NE: False
      then have ex: "map_of ?m k = Some (portInfoOf w (winner w ?cs))" using snoc by simp
      have nm: "port_Name (portInfoOf w (winner w ?cs)) = procName w (winner w ?cs)"
        by (simp add: portInfoOf_def)
      show ?thesis
      proof (cases "procName w (winner w ?cs) = [] \<and> procName w c \<noteq> []")
        case T2: True
        then have "portStep w ?m c = AList.update k (portInfoOf w c) ?m"
          using k L P ex nm by (simp add: portStep_def)
        moreover have "winner w (?cs @ [c]) = c" using winner_snoc[OF NE, of w c] T2 by simp
        ultimately show ?thesis using True by (simp add: update_conv')
      next
        case F2: False
        then have "portStep w ?m c = ?m"
          using k L P ex nm by (auto simp: portStep_def)
        moreover have "winner w (?cs @ [c]) = winner w ?cs"
          using winner_snoc[OF NE, of w c] F2 by auto
        ultimately show ?thesis using True ex by simp
      qed
    qed
  qed
qed

lemma filter_key_single:
  "distinct (map fst m) \<Longrightarrow> map_of m k = Some v \<Longrightarrow> filter (\<lambda>e. fst e = k) m = [(k, v)]"
proof (induction m)
  case Nil
  then show ?case by simp
next
  case (Cons e m)
  show ?case
  proof (cases "fst e = k")
    case True
    then have "k \<notin> fst ` set m" using Cons.prems(1) by simp
    then have "\<forall>x\<in>set m. fst x \<noteq> k" by blast
    then have "filter (\<lambda>e. fst e = k) m = []" by (simp add: filter_empty_conv)
    moreover have "map_of (e # m) k = Some (snd e)" using True by (cases e) simp
    ultimately show ?thesis using True Cons.prems(2) by (cases e) simp
  next
    case False
    then show ?thesis using Cons by (cases e) auto
  qed
qed

lemma mset_single_list: "mset xs = {#v#} \<Longrightarrow> xs = [v]"
  by (cases xs) auto

text \<open>
  \<open>GetOpenPorts\<close> returns whenever the connections can be listed, and what it returns is
  the records of the port map, sorted by port.
\<close>

lemma GetOpenPorts_mset:
  assumes "net_Connections w = Inr conns" "range_visits_all w"
  shows "\<exists>ports. GetOpenPorts w = Inr ports
           \<and> mset ports = mset (map snd (foldl (portStep w) [] conns))"
proof -
  let ?m = "foldl (portStep w) [] conns"
  have "mset (map_range w ?m) = mset ?m"
    using assms(2) by (simp add: range_visits_all_def)
  then have "mset (map snd (map_range w ?m)) = mset (map snd ?m)"
    by (metis mset_map)
  then show ?thesis using assms(1)
    by (simp add: GetOpenPorts_def mset_sortOuter)
qed

lemma GetOpenPorts_member:
  assumes rng: "range_visits_all w" and g: "GetOpenPorts w = Inr ports" and r: "r \<in> set ports"
  shows "\<exists>conns c. net_Connections w = Inr conns \<and> c \<in> set conns
           \<and> conn_Status c = ''LISTEN'' \<and> addr_Port (conn_Laddr c) \<noteq> 0
           \<and> r = portInfoOf w c"
proof -
  from g obtain conns where conns: "net_Connections w = Inr conns"
    by (cases "net_Connections w") (auto simp: GetOpenPorts_def)
  let ?m = "foldl (portStep w) [] conns"
  from GetOpenPorts_mset[OF conns rng] g have "mset ports = mset (map snd ?m)" by auto
  then have "set ports = set (map snd ?m)" by (metis set_mset_mset)
  with r obtain e where e: "e \<in> set ?m" "r = snd e" by auto
  from portMap_entries[OF e(1)] obtain c where "c \<in> set conns" "kept (fst e) c"
    "snd e = portInfoOf w c" by blast
  then show ?thesis using conns e(2) by (auto simp: kept_def)
qed

lemma collect_filter:
  "foldl (\<lambda>filtered p. if P p then filtered @ [p] else filtered) acc xs = acc @ filter P xs"
  by (induction xs arbitrary: acc) auto

lemma filtered_subset:
  assumes "res = GetOpenPorts w \<or> res = GetPortInfoByPort w n \<or> res = GetPortsByPID w pid"
    and "res = Inr ports" and "r \<in> set ports"
  shows "\<exists>allPorts. GetOpenPorts w = Inr allPorts \<and> r \<in> set allPorts"
  using assms
  by (cases "GetOpenPorts w")
     (auto simp: GetPortInfoByPort_def GetPortsByPID_def collect_filter)

section \<open>Properties of the port listing\<close>

text \<open>
  C1, as the code has it. For every list of connections and every natural key
  (local address, port number) with a port other than 0 that some raw LISTEN connection
  carries, the result of \<open>GetOpenPorts\<close> holds exactly one record with that key: the
  record of the first such connection whose process name is not empty, or of the first
  such connection when none has a name. So of two colliding connections the one with a
  process name wins, and the first one wins when both or neither have a name.
  Connections with port 0 are skipped and leave no record.
\<close>

theorem GetOpenPorts_dedup:
  assumes conns: "net_Connections w = Inr conns" and rng: "range_visits_all w"
    and port: "port \<noteq> 0"
    and cs: "filter (sameKey ip port) conns \<noteq> []"
  shows "\<exists>ports. GetOpenPorts w = Inr ports \<and>
           filter (\<lambda>r. port_LocalIP r = ip \<and> port_Port r = port) ports
             = [portInfoOf w (winner w (filter (sameKey ip port) conns))]"
proof -
  let ?m = "foldl (portStep w) [] conns"
  let ?k = "ip @ '':'' @ itoa port"
  let ?P = "\<lambda>r. port_LocalIP r = ip \<and> port_Port r = port"
  let ?v = "portInfoOf w (winner w (filter (sameKey ip port) conns))"
  obtain ports where g: "GetOpenPorts w = Inr ports"
    and ms: "mset ports = mset (map snd ?m)"
    using GetOpenPorts_mset[OF conns rng] by blast
  have fk: "filter (kept ?k) conns = filter (sameKey ip port) conns"
    by (rule filter_cong[OF refl]) (rule kept_sameKey[OF port])
  have look: "map_of ?m ?k = Some ?v"
    unfolding portMap_lookup fk using cs by simp
  have single: "filter (\<lambda>e. fst e = ?k) ?m = [(?k, ?v)]"
    using portMap_distinct look by (rule filter_key_single)
  have "?P (snd e) \<longleftrightarrow> fst e = ?k" if "e \<in> set ?m" for e
  proof -
    from portMap_entries[OF that] obtain c where c: "kept (fst e) c" "snd e = portInfoOf w c"
      by blast
    then have pk: "portKey c = fst e" and p0: "addr_Port (conn_Laddr c) \<noteq> 0"
      and L: "conn_Status c = ''LISTEN''" by (auto simp: kept_def)
    have "?P (snd e) \<longleftrightarrow> sameKey ip port c" using c L by (simp add: portInfoOf_def sameKey_def)
    also have "\<dots> \<longleftrightarrow> kept ?k c" by (rule kept_sameKey[OF port, symmetric])
    also have "\<dots> \<longleftrightarrow> fst e = ?k" using pk p0 L by (auto simp: kept_def)
    finally show ?thesis .
  qed
  then have "filter (\<lambda>e. ?P (snd e)) ?m = filter (\<lambda>e. fst e = ?k) ?m"
    by (intro filter_cong) auto
  then have "filter ?P (map snd ?m) = [?v]" using single by (simp add: filter_map comp_def)
  then have "mset (filter ?P ports) = {#?v#}"
    using ms by (metis mset_filter mset.simps)
  then have "filter ?P ports = [?v]" by (rule mset_single_list)
  then show ?thesis using g by blast
qed

text \<open>
  C2. Every record that \<open>GetOpenPorts\<close>, \<open>GetPortInfoByPort\<close> or \<open>GetPortsByPID\<close>
  returns has the socket state LISTEN, and is the record of a raw connection whose status
  is LISTEN: a connection in any other state leaves no record.
\<close>

theorem ports_only_LISTEN:
  assumes "range_visits_all w"
    and "res = GetOpenPorts w \<or> res = GetPortInfoByPort w n \<or> res = GetPortsByPID w pid"
    and "res = Inr ports" and "r \<in> set ports"
  shows "port_State r = ''LISTEN''
         \<and> (\<exists>conns c. net_Connections w = Inr conns \<and> c \<in> set conns
               \<and> conn_Status c = ''LISTEN'' \<and> r = portInfoOf w c)"
proof -
  from filtered_subset[OF assms(2,3,4)] obtain allPorts
    where "GetOpenPorts w = Inr allPorts" "r \<in> set allPorts" by blast
  from GetOpenPorts_member[OF assms(1) this] obtain conns c
    where c: "net_Connections w = Inr conns" "c \<in> set conns" "conn_Status c = ''LISTEN''"
      "r = portInfoOf w c" by blast
  moreover from c have "port_State r = ''LISTEN''" by (simp add: portInfoOf_def)
  ultimately show ?thesis by blast
qed

text \<open>
  C5. \<open>GetPortInfoByPort n\<close> returns exactly the records of the \<open>GetOpenPorts\<close> result
  whose port is \<open>n\<close>, in the same order, and \<open>GetPortsByPID p\<close> exactly those whose pid
  is \<open>p\<close>; when the listing fails, both fail with its error.
\<close>

theorem filters_after_normalization:
  "GetPortInfoByPort w n =
     (case GetOpenPorts w of
        Inl err \<Rightarrow> Inl err
      | Inr allPorts \<Rightarrow> Inr (filter (\<lambda>p. port_Port p = n) allPorts))
   \<and> GetPortsByPID w pid =
     (case GetOpenPorts w of
        Inl err \<Rightarrow> Inl err
      | Inr allPorts \<Rightarrow> Inr (filter (\<lambda>p. port_PID p = pid) allPorts))"
  by (simp add: GetPortInfoByPort_def GetPortsByPID_def collect_filter split: sum.splits)

text \<open>
  C10. Every record that \<open>GetOpenPorts\<close> returns has the protocol TCP: \<open>getProtocol\<close>
  answers UDP only for a status that contains "udp" in lower case, and the status of a
  connection that is kept is LISTEN.
\<close>

theorem ports_protocol_TCP:
  assumes "range_visits_all w" and "GetOpenPorts w = Inr ports" and "r \<in> set ports"
  shows "port_Protocol r = ''TCP''
         \<and> (getProtocol w conn = ''UDP''
              \<longleftrightarrow> Contains (ToLower w (conn_Status conn)) ''udp'')"
proof -
  from GetOpenPorts_member[OF assms] obtain c
    where c: "conn_Status c = ''LISTEN''" "r = portInfoOf w c" by blast
  have "\<not> Contains (ToLower w ''LISTEN'') ''udp''"
    by (simp add: ToLower_def isASCII_def toLowerByte_def)
  then have "port_Protocol r = ''TCP''"
    using c by (simp add: portInfoOf_def getProtocol_def)
  then show ?thesis by (simp add: getProtocol_def)
qed

section \<open>Properties of the process listing\<close>

lemma collectUserProcs_map_filter:
  "foldl (collectUserProcs w) acc procs = acc @ List.map_filter (userProcessInfo w) procs"
  by (induction procs arbitrary: acc)
     (auto simp: collectUserProcs_def List.map_filter_simps split: option.splits)

lemma set_map_filter: "set (List.map_filter f xs) = {y. \<exists>x\<in>set xs. f x = Some y}"
  by (induction xs) (auto simp: List.map_filter_simps split: option.splits)

lemma GetUserApplications_set:
  assumes "process_Processes w = Inr procs"
  shows "\<exists>apps. GetUserApplications w = Inr apps
           \<and> set apps = {info. \<exists>p\<in>set procs. userProcessInfo w p = Some info}"
  using assms
  by (simp add: GetUserApplications_def collectUserProcs_map_filter set_map_filter)

lemma userProcessInfo_Some:
  assumes "userProcessInfo w p = Some info"
  shows "p_Name p = (proc_Name info, None) \<and> p_Exe p = Inr (proc_Path info)
         \<and> p_Username p = Inr (proc_User info) \<and> p_Pid p = proc_PID info
         \<and> proc_User info \<noteq> [] \<and> \<not> isSystemUser w (proc_User info) (GOOS w)
         \<and> \<not> isSystemProcess w (proc_Name info) (getSystemPrefixes (GOOS w))"
  using assms
  by (auto simp: userProcessInfo_def Let_def
      split: sum.splits if_splits prod.splits option.splits)

lemma userProcessInfo_None:
  "userProcessInfo w p = None \<longleftrightarrow>
     snd (p_Name p) \<noteq> None \<or> (\<exists>err. p_Exe p = Inl err)
     \<or> isSystemProcess w (fst (p_Name p)) (getSystemPrefixes (GOOS w))
     \<or> isSystemUser w (owningUser p) (GOOS w) \<and> (\<exists>u. p_Username p = Inr u)
     \<or> owningUser p = []"
  by (auto simp: userProcessInfo_def owningUser_def Let_def
      split: sum.splits if_splits prod.splits option.splits)

text \<open>
  Lower-casing an ASCII string twice, as \<open>isSystemProcess\<close> does with the name, is
  lower-casing it once.
\<close>

lemma toLowerByte_ASCII: "isASCII c \<Longrightarrow> isASCII (toLowerByte c)"
  by (auto simp: toLowerByte_def isASCII_def split: option.splits if_splits)

lemma toLowerByte_idem: "toLowerByte (toLowerByte c) = toLowerByte c"
  by (auto simp: toLowerByte_def split: option.splits if_splits)

lemma ToLower_ASCII_idem:
  assumes "list_all isASCII s"
  shows "ToLower w (ToLower w s) = ToLower w s"
proof -
  have "list_all isASCII (map toLowerByte s)"
    using assms by (induction s) (auto simp: toLowerByte_ASCII)
  then show ?thesis using assms by (simp add: ToLower_def toLowerByte_idem)
qed

lemma anyPrefixOf_iff:
  "anyPrefixOf w n ps \<longleftrightarrow> (\<exists>pre\<in>set ps. prefix (ToLower w pre) (ToLower w n))"
  by (induction ps) (auto simp: HasPrefix_def)

lemma isSystemProcess_iff:
  "isSystemProcess w name ps \<longleftrightarrow>
     (\<exists>pre\<in>set ps. prefix (ToLower w pre) (ToLower w (ToLower w name)))"
  by (simp add: isSystemProcess_def anyPrefixOf_iff)

lemma anyUserIs_iff: "anyUserIs w u us \<longleftrightarrow> u \<in> ToLower w ` set us"
  by (induction us) auto

lemma isSystemUser_iff:
  "isSystemUser w username os \<longleftrightarrow> ToLower w username \<in> ToLower w ` set (getSystemUsers os)"
  by (simp add: isSystemUser_def anyUserIs_iff)

text \<open>
  C3, as the code has it. Whenever the process table can be read,
  \<open>GetUserApplications\<close> returns the records that the loop body builds, and every
  record has an owning user that is neither empty nor a system account, a name that
  matches no system prefix, and as path what the \<open>Exe\<close> lookup of its process returned
  without error (the lookup's error is checked, not the emptiness of the path, so the
  paths are non-empty provided no lookup succeeds with an empty path). A process whose
  name or path lookup fails is excluded. A process whose name and path lookups succeed is
  excluded exactly when its name matches a system prefix or its owning user matches a
  system account or its owning user is empty (an owning user that cannot be read counts
  as empty). Matching is on the lower-case forms that \<open>strings.ToLower\<close> gives, capital
  letters outside ASCII included: a name matches when the lower-case form of a prefix
  starts the lower-case form of the name (lower-cased twice, which changes nothing on
  ASCII), a user when its lower-case form is that of an account.
\<close>

theorem user_applications_classification:
  assumes "process_Processes w = Inr procs"
  shows "\<exists>apps. GetUserApplications w = Inr apps
     \<and> set apps = {info. \<exists>p\<in>set procs. userProcessInfo w p = Some info}
     \<and> (\<forall>info\<in>set apps.
           proc_User info \<noteq> [] \<and> \<not> isSystemUser w (proc_User info) (GOOS w)
           \<and> \<not> isSystemProcess w (proc_Name info) (getSystemPrefixes (GOOS w))
           \<and> (\<exists>p\<in>set procs. p_Pid p = proc_PID info \<and> p_Exe p = Inr (proc_Path info)))
     \<and> ((\<forall>p\<in>set procs. p_Exe p \<noteq> Inr []) \<longrightarrow> (\<forall>info\<in>set apps. proc_Path info \<noteq> []))
     \<and> (\<forall>p. snd (p_Name p) \<noteq> None \<or> (\<exists>err. p_Exe p = Inl err)
              \<longrightarrow> userProcessInfo w p = None)
     \<and> (\<forall>p name exe. p_Name p = (name, None) \<and> p_Exe p = Inr exe \<longrightarrow>
           (userProcessInfo w p = None \<longleftrightarrow>
              isSystemProcess w name (getSystemPrefixes (GOOS w))
              \<or> isSystemUser w (owningUser p) (GOOS w)
              \<or> owningUser p = []))
     \<and> (\<forall>name ps. isSystemProcess w name ps \<longleftrightarrow>
           (\<exists>pre\<in>set ps. prefix (ToLower w pre) (ToLower w (ToLower w name))))
     \<and> (\<forall>name. list_all isASCII name \<longrightarrow> ToLower w (ToLower w name) = ToLower w name)
     \<and> (\<forall>u os. isSystemUser w u os \<longleftrightarrow>
           ToLower w u \<in> ToLower w ` set (getSystemUsers os))"
proof -
  from GetUserApplications_set[OF assms] obtain apps
    where apps: "GetUserApplications w = Inr apps"
      "set apps = {info. \<exists>p\<in>set procs. userProcessInfo w p = Some info}" by blast
  have inv: "\<forall>info\<in>set apps.
           proc_User info \<noteq> [] \<and> \<not> isSystemUser w (proc_User info) (GOOS w)
           \<and> \<not> isSystemProcess w (proc_Name info) (getSystemPrefixes (GOOS w))
           \<and> (\<exists>p\<in>set procs. p_Pid p = proc_PID info \<and> p_Exe p = Inr (proc_Path info))"
  proof
    fix info assume "info \<in> set apps"
    then obtain p where p: "p \<in> set procs" "userProcessInfo w p = Some info"
      using apps(2) by auto
    from userProcessInfo_Some[OF p(2)] p(1)
    show "proc_User info \<noteq> [] \<and> \<not> isSystemUser w (proc_User info) (GOOS w)
           \<and> \<not> isSystemProcess w (proc_Name info) (getSystemPrefixes (GOOS w))
           \<and> (\<exists>p\<in>set procs. p_Pid p = proc_PID info \<and> p_Exe p = Inr (proc_Path info))"
      by blast
  qed
  have path: "(\<forall>p\<in>set procs. p_Exe p \<noteq> Inr []) \<longrightarrow> (\<forall>info\<in>set apps. proc_Path info \<noteq> [])"
    using inv by metis
  have fail: "\<forall>p. snd (p_Name p) \<noteq> None \<or> (\<exists>err. p_Exe p = Inl err)
              \<longrightarrow> userProcessInfo w p = None"
    by (auto simp: userProcessInfo_None)
  have excl: "\<forall>p name exe. p_Name p = (name, None) \<and> p_Exe p = Inr exe \<longrightarrow>
           (userProcessInfo w p = None \<longleftrightarrow>
              isSystemProcess w name (getSystemPrefixes (GOOS w))
              \<or> isSystemUser w (owningUser p) (GOOS w)
              \<or> owningUser p = [])"
    by (auto simp: userProcessInfo_None owningUser_def split: sum.splits)
  have idem: "\<forall>name. list_all isASCII name \<longrightarrow> ToLower w (ToLower w name) = ToLower w name"
    by (simp add: ToLower_ASCII_idem)
  show ?thesis
    using apps inv path fail excl idem isSystemProcess_iff[of w] isSystemUser_iff[of w]
    by blast
qed

text \<open>
  C6. The sequence that \<open>GetUserApplications\<close> returns is non-decreasing in pid, and
  the sequence that \<open>GetOpenPorts\<close> returns is non-decreasing in port number.
\<close>

theorem canonical_sort_order:
  "(GetUserApplications w = Inr apps \<longrightarrow> sorted (map proc_PID apps))
   \<and> (GetOpenPorts w = Inr ports \<longrightarrow> sorted (map port_Port ports))"
  by (auto simp: GetUserApplications_def GetOpenPorts_def Let_def sortOuter_sorted
      split: sum.splits)

section \<open>Properties of the resource sampler\<close>

text \<open>
  C7, as the code has it. \<open>GetProcessResourceUsage\<close> returns an error, and no record,
  exactly when the process handle cannot be resolved (the pid does not exist) or the
  memory information cannot be read, and the error is that of the failing step. When
  both succeed the call succeeds, whatever the other five samples return: name, CPU
  percent, memory percent, thread count and open-file count of the record are the values
  that the getters returned, beside their error when they failed. So a failed sample
  leaves its field at the zero value exactly when the getter returns the zero value with
  its error; the code does not reset the field.
\<close>

theorem resource_error_contract:
  "(GetProcessResourceUsage w pid = Inl err \<longleftrightarrow>
      process_NewProcess w pid = Inl err
      \<or> (\<exists>p. process_NewProcess w pid = Inr p \<and> p_MemoryInfo p = Inl err))
   \<and> (process_NewProcess w pid = Inr p \<and> p_MemoryInfo p = Inr memInfo \<longrightarrow>
        (\<exists>usage. GetProcessResourceUsage w pid = Inr usage
           \<and> ru_PID usage = pid
           \<and> ru_Name usage = fst (p_Name p)
           \<and> ru_CPUPercent usage = fst (p_CPUPercent p)
           \<and> ru_MemoryPercent usage = fst (p_MemoryPercent p)
           \<and> ru_Threads usage = fst (p_NumThreads p)
           \<and> ru_OpenFiles usage = fst (p_NumFDs p)
           \<and> ((\<exists>e. p_Name p = ([], Some e)) \<longrightarrow> ru_Name usage = [])
           \<and> ((\<exists>e. p_CPUPercent p = (0, Some e)) \<longrightarrow> ru_CPUPercent usage = 0)
           \<and> ((\<exists>e. p_MemoryPercent p = (0, Some e)) \<longrightarrow> ru_MemoryPercent usage = 0)
           \<and> ((\<exists>e. p_NumThreads p = (0, Some e)) \<longrightarrow> ru_Threads usage = 0)
           \<and> ((\<exists>e. p_NumFDs p = (0, Some e)) \<longrightarrow> ru_OpenFiles usage = 0)))"
  by (auto simp: GetProcessResourceUsage_def Let_def split: sum.splits)

text \<open>
  C9, as the code has it. The \<open>cpuPercent\<close> of a record that
  \<open>GetProcessResourceUsage\<close> returns is the CPU percent that the sampler returned, not
  clamped. The rendering clamps: \<open>cpuHuman\<close> is \<open>FormatCPU\<close> of that value, and
  \<open>FormatCPU\<close> renders every value below 0.01 as "< 0.01%" and every value at or above
  100 as "100%", so 0.005 as "< 0.01%" and 150 as "100%".
\<close>

theorem cpu_percent_rendering:
  "(GetProcessResourceUsage w pid = Inr usage \<longrightarrow>
      (\<exists>p. process_NewProcess w pid = Inr p
         \<and> ru_CPUPercent usage = fst (p_CPUPercent p))
      \<and> ru_CPUHuman usage = FormatCPU (ru_CPUPercent usage))
   \<and> (cpu < 0.01 \<longrightarrow> FormatCPU cpu = ''< 0.01%'')
   \<and> (cpu \<ge> 100 \<longrightarrow> FormatCPU cpu = ''100%'')
   \<and> FormatCPU 0.005 = ''< 0.01%''
   \<and> FormatCPU 150 = ''100%''"
  by (auto simp: GetProcessResourceUsage_def FormatCPU_def Let_def split: sum.splits)

section \<open>Properties of the service listing\<close>









section \<open>Properties of the window listing\<close>

text \<open>
  Both macOS parsers append a record only when application name and title are not empty.
\<close>

lemma macOSWindow_nonblank:
  "macOSWindow w line = Some x \<Longrightarrow> win_Title x \<noteq> [] \<and> win_Process x \<noteq> []"
  by (auto simp: macOSWindow_def Let_def split: if_splits prod.splits option.splits)

lemma macOSWindowAlt_nonblank:
  "macOSWindowAlt w line = Some x \<Longrightarrow> win_Title x \<noteq> [] \<and> win_Process x \<noteq> []"
  by (auto simp: macOSWindowAlt_def Let_def split: if_splits prod.splits option.splits)

lemma getMacOSWindows_nonblank:
  assumes "getMacOSWindows w = Inr windows" "x \<in> set windows"
  shows "win_Title x \<noteq> [] \<and> win_Process x \<noteq> []"
proof -
  from assms have "(\<exists>line. macOSWindow w line = Some x) \<or> (\<exists>line. macOSWindowAlt w line = Some x)"
    by (auto simp: getMacOSWindows_def getMacOSWindowsAlt_def Let_def set_map_filter
        split: sum.splits if_splits)
  then show ?thesis using macOSWindow_nonblank macOSWindowAlt_nonblank by blast
qed

text \<open>
  The Linux parser has no such check. Its titles are never empty, since a title joins at
  least one field and no field is empty.
\<close>

lemma fieldsFrom_nonempty: "f \<in> set (fieldsFrom cur s) \<Longrightarrow> f \<noteq> []"
  by (induction cur s rule: fieldsFrom.induct) (auto split: if_splits)

lemma Join_nonempty: "xs \<noteq> [] \<Longrightarrow> \<forall>x\<in>set xs. x \<noteq> [] \<Longrightarrow> Join xs sep \<noteq> []"
  by (induction xs sep rule: Join.induct) auto

lemma linuxWindow_title:
  assumes "linuxWindow w line = Some x"
  shows "win_Title x \<noteq> []"
proof -
  from assms have len: "length (Fields line) \<ge> 5"
    and t: "win_Title x = Join (drop 4 (Fields line)) '' ''"
    by (auto simp: linuxWindow_def Let_def split: if_splits)
  have "drop 4 (Fields line) \<noteq> []" using len by simp
  moreover have "\<forall>f\<in>set (drop 4 (Fields line)). f \<noteq> []"
    using fieldsFrom_nonempty[of _ "[]" line] by (auto simp: Fields_def dest: in_set_dropD)
  ultimately show ?thesis unfolding t by (rule Join_nonempty)
qed

section \<open>The sample machines, evaluated\<close>

lemma machine_sel:
  "GOOS machine = ''linux''"
  "net_Connections machine =
     Inr [listening ''0.0.0.0'' 8080 0, listening ''0.0.0.0'' 8080 42,
          established ''10.0.0.1'' 443 42, listening ''127.0.0.1'' 22 7]"
  "process_NewProcess machine 42 = Inr nginx"
  "process_NewProcess machine 4000 = Inr chrome"
  "process_NewProcess machine 7 = Inl (Error ''process does not exist'')"
  "process_Processes machine = Inr [chrome, systemd, nginx]"
  "map_range machine = rev"
  "wmctrl_lp machine =
     Inr (''0x01 0 4000 pc Inbox'' @ [CHR 0x0A] @ ''0x02 0 0 pc Desktop'' @ [CHR 0x0A])"
  "ps_comm machine 4000 = Inr (''chrome'' @ [CHR 0x0A])"
  "ps_comm machine 0 = Inl (Error ''exit status 1'')"
  "systemctl_list_units machine =
     Inr (''web.service loaded active running'' @ [CHR 0x0A]
          @ ''cron.service loaded active running'' @ [CHR 0x0A])"
  "systemctl_show_MainPID machine ''web.service'' = Inr (''42'' @ [CHR 0x0A])"
  "systemctl_show_MainPID machine ''cron.service'' = Inr (''7'' @ [CHR 0x0A])"
  by (simp_all add: machine_def)

lemma nginx_sel:
  "p_Pid nginx = 42" "p_Name nginx = (''nginx'', None)" "p_Exe nginx = Inr ''/usr/sbin/nginx''"
  "p_Status nginx = Inr [''S'']" "p_Username nginx = Inr ''www''"
  "p_CreateTime nginx = Inr 1700000000" "p_CPUPercent nginx = (250, None)"
  "p_MemoryPercent nginx = (3, None)"
  "p_MemoryInfo nginx = Inr (Some \<lparr> mem_RSS = 512, mem_VMS = 4096 \<rparr>)"
  "p_NumThreads nginx = (4, None)" "p_NumFDs nginx = (0, Some (Error ''not implemented''))"
  by (simp_all add: nginx_def)

lemma systemd_sel:
  "p_Pid systemd = 100" "p_Name systemd = (''systemd'', None)"
  "p_Exe systemd = Inr ''/usr/lib/systemd/systemd''" "p_Username systemd = Inr ''root''"
  by (simp_all add: systemd_def)

lemma chrome_sel:
  "p_Pid chrome = 4000" "p_Name chrome = (''Chrome'', None)"
  "p_Exe chrome = Inr ''/usr/bin/chrome''"
  "p_Status chrome = Inr [''R'']" "p_Username chrome = Inr ''alice''"
  "p_CreateTime chrome = Inr 1700000000" "p_CPUPercent chrome = (12, None)"
  "p_MemoryInfo chrome = Inl (Error ''permission denied'')"
  by (simp_all add: chrome_def)

lemma defunct_sel:
  "p_Pid defunct = 5000" "p_Name defunct = (''defunct'', None)"
  "p_Exe defunct = Inl (Error ''no such file'')" "p_Username defunct = Inr ''alice''"
  by (simp_all add: defunct_def chrome_def)

lemma pathless_sel:
  "p_Pid pathless = 6000" "p_Name pathless = (''helper'', None)" "p_Exe pathless = Inr []"
  "p_Status pathless = Inr [''R'']" "p_Username pathless = Inr ''alice''"
  "p_CreateTime pathless = Inr 1700000000"
  by (simp_all add: pathless_def chrome_def)

lemma range_machine: "range_visits_all machine"
  by (simp add: range_visits_all_def machine_def)

lemma machine_ports:
  "GetOpenPorts machine =
     Inr [\<lparr> port_Port = 22, port_Protocol = ''TCP'', port_PID = 7, port_Name = [],
            port_Path = [], port_State = ''LISTEN'', port_LocalIP = ''127.0.0.1'' \<rparr>,
          \<lparr> port_Port = 8080, port_Protocol = ''TCP'', port_PID = 42, port_Name = ''nginx'',
            port_Path = ''/usr/sbin/nginx'', port_State = ''LISTEN'',
            port_LocalIP = ''0.0.0.0'' \<rparr>]"
  by (simp add: GetOpenPorts_def machine_sel portStep_def portKey_def portInfoOf_def
      procName_def exePath_def getProtocol_def listening_def established_def nginx_sel
      itoa.simps digit_def ToLower_def isASCII_def toLowerByte_def sortOuter.simps
      sortInner.simps)

text \<open>The names and users of the samples are ASCII: every machine classifies them alike.\<close>

lemma linux_prefixes:
  "\<not> isSystemProcess w ''Chrome'' (getSystemPrefixes ''linux'')"
  "\<not> isSystemProcess w ''nginx'' (getSystemPrefixes ''linux'')"
  "\<not> isSystemProcess w ''defunct'' (getSystemPrefixes ''linux'')"
  "\<not> isSystemProcess w ''helper'' (getSystemPrefixes ''linux'')"
  "isSystemProcess w ''systemd'' (getSystemPrefixes ''linux'')"
  by (simp_all add: isSystemProcess_def getSystemPrefixes_def HasPrefix_def ToLower_def
      isASCII_def toLowerByte_def)

lemma linux_users:
  "\<not> isSystemUser w ''alice'' ''linux''" "\<not> isSystemUser w ''www'' ''linux''"
  "isSystemUser w ''root'' ''linux''"
  by (simp_all add: isSystemUser_def getSystemUsers_def ToLower_def isASCII_def
      toLowerByte_def)

lemma linux_userProcessInfo:
  assumes "GOOS w = ''linux''"
  shows "userProcessInfo w chrome =
     Some \<lparr> proc_PID = 4000, proc_Name = ''Chrome'', proc_Path = ''/usr/bin/chrome'',
            proc_Status = ''R'', proc_User = ''alice'', proc_StartTime = [] \<rparr>"
    and "userProcessInfo w systemd = None"
    and "userProcessInfo w nginx =
     Some \<lparr> proc_PID = 42, proc_Name = ''nginx'', proc_Path = ''/usr/sbin/nginx'',
            proc_Status = ''S'', proc_User = ''www'', proc_StartTime = [] \<rparr>"
    and "userProcessInfo w defunct = None"
    and "userProcessInfo w pathless =
     Some \<lparr> proc_PID = 6000, proc_Name = ''helper'', proc_Path = [],
            proc_Status = ''R'', proc_User = ''alice'', proc_StartTime = [] \<rparr>"
  by (simp_all add: userProcessInfo_def assms chrome_sel systemd_sel nginx_sel
      defunct_sel pathless_sel linux_prefixes linux_users formatTime_def)

lemma machine_apps:
  "GetUserApplications machine =
     Inr [\<lparr> proc_PID = 42, proc_Name = ''nginx'', proc_Path = ''/usr/sbin/nginx'',
            proc_Status = ''S'', proc_User = ''www'', proc_StartTime = [] \<rparr>,
          \<lparr> proc_PID = 4000, proc_Name = ''Chrome'', proc_Path = ''/usr/bin/chrome'',
            proc_Status = ''R'', proc_User = ''alice'', proc_StartTime = [] \<rparr>]"
  by (simp add: GetUserApplications_def machine_sel collectUserProcs_def
      linux_userProcessInfo[OF machine_sel(1)])

text \<open>
  The name that starts with the capital dotted I lower-cases to \<open>init\<close>, a system
  prefix on Linux: the process is excluded.
\<close>

lemma machine_unicode_apps:
  "isSystemProcess machine_unicode ([CHR 0xC4, CHR 0xB0] @ ''NIT'') (getSystemPrefixes ''linux'')"
  "GetUserApplications machine_unicode = Inr []"
proof -
  have l: "ToLower machine_unicode ([CHR 0xC4, CHR 0xB0] @ ''NIT'') = ''init''"
    by (simp add: ToLower_def isASCII_def machine_unicode_def)
  have i: "ToLower machine_unicode ''init'' = ''init''"
    by (simp add: ToLower_def isASCII_def toLowerByte_def)
  show s: "isSystemProcess machine_unicode ([CHR 0xC4, CHR 0xB0] @ ''NIT'')
             (getSystemPrefixes ''linux'')"
    unfolding isSystemProcess_def l
    by (simp add: getSystemPrefixes_def HasPrefix_def i)
  have g: "GOOS machine_unicode = ''linux''"
    "process_Processes machine_unicode = Inr [dotted]"
    by (simp_all add: machine_unicode_def machine_def)
  have n: "p_Name dotted = ([CHR 0xC4, CHR 0xB0] @ ''NIT'', None)"
    by (simp add: dotted_def)
  have "userProcessInfo machine_unicode dotted = None"
    using s by (simp add: userProcessInfo_None g n)
  then show "GetUserApplications machine_unicode = Inr []"
    by (simp add: GetUserApplications_def g collectUserProcs_def)
qed

section \<open>The properties on the sample machines\<close>

text \<open>
  The scenario of the specification: two LISTEN sockets on 0.0.0.0:8080, the first
  without a resolved process, the second resolved to nginx. The listing has one entry for
  the key, named nginx.
\<close>

theorem GetOpenPorts_dedup_witness:
  "\<exists>ports. GetOpenPorts machine = Inr ports \<and>
     filter (\<lambda>r. port_LocalIP r = ''0.0.0.0'' \<and> port_Port r = 8080) ports
       = [\<lparr> port_Port = 8080, port_Protocol = ''TCP'', port_PID = 42, port_Name = ''nginx'',
            port_Path = ''/usr/sbin/nginx'', port_State = ''LISTEN'',
            port_LocalIP = ''0.0.0.0'' \<rparr>]"
proof -
  let ?conns = "[listening ''0.0.0.0'' 8080 0, listening ''0.0.0.0'' 8080 42,
              established ''10.0.0.1'' 443 42, listening ''127.0.0.1'' 22 7]"
  have f: "filter (sameKey ''0.0.0.0'' 8080) ?conns
             = [listening ''0.0.0.0'' 8080 0, listening ''0.0.0.0'' 8080 42]"
    by (simp add: sameKey_def listening_def established_def)
  have n1: "procName machine (listening ''0.0.0.0'' 8080 0) = []"
    by (simp add: procName_def listening_def)
  have n2: "procName machine (listening ''0.0.0.0'' 8080 42) = ''nginx''"
    by (simp add: procName_def listening_def machine_sel nginx_sel)
  have w: "winner machine [listening ''0.0.0.0'' 8080 0, listening ''0.0.0.0'' 8080 42]
             = listening ''0.0.0.0'' 8080 42"
    by (simp add: winner_def n1 n2)
  have p: "portInfoOf machine (listening ''0.0.0.0'' 8080 42)
             = \<lparr> port_Port = 8080, port_Protocol = ''TCP'', port_PID = 42, port_Name = ''nginx'',
                 port_Path = ''/usr/sbin/nginx'', port_State = ''LISTEN'',
                 port_LocalIP = ''0.0.0.0'' \<rparr>"
    using n2 by (simp add: portInfoOf_def exePath_def getProtocol_def listening_def
        machine_sel nginx_sel ToLower_def isASCII_def toLowerByte_def)
  have ne: "filter (sameKey ''0.0.0.0'' 8080) ?conns \<noteq> []" unfolding f by simp
  have p0: "(8080::nat) \<noteq> 0" by simp
  from GetOpenPorts_dedup[OF machine_sel(2) range_machine p0 ne]
  show ?thesis by (simp only: f w p)
qed

text \<open>Two LISTEN sockets on 0.0.0.0 with port 0 share their key and leave no record.\<close>

theorem GetOpenPorts_port0_counterexample:
  "net_Connections machine_port0 = Inr [listening ''0.0.0.0'' 0 0, listening ''0.0.0.0'' 0 42]
   \<and> sameKey ''0.0.0.0'' 0 (listening ''0.0.0.0'' 0 0)
   \<and> sameKey ''0.0.0.0'' 0 (listening ''0.0.0.0'' 0 42)
   \<and> GetOpenPorts machine_port0 = Inr []"
  by (simp add: GetOpenPorts_def machine_port0_def machine_def portStep_def listening_def
      sameKey_def sortOuter.simps)

theorem ports_only_LISTEN_witness:
  "GetPortInfoByPort machine 8080 =
     Inr [\<lparr> port_Port = 8080, port_Protocol = ''TCP'', port_PID = 42, port_Name = ''nginx'',
            port_Path = ''/usr/sbin/nginx'', port_State = ''LISTEN'',
            port_LocalIP = ''0.0.0.0'' \<rparr>]
   \<and> (\<exists>conns c. net_Connections machine = Inr conns \<and> c \<in> set conns
         \<and> conn_Status c = ''LISTEN''
         \<and> \<lparr> port_Port = 8080, port_Protocol = ''TCP'', port_PID = 42, port_Name = ''nginx'',
              port_Path = ''/usr/sbin/nginx'', port_State = ''LISTEN'',
              port_LocalIP = ''0.0.0.0'' \<rparr> = portInfoOf machine c)"
proof -
  let ?r = "\<lparr> port_Port = 8080, port_Protocol = ''TCP'', port_PID = 42, port_Name = ''nginx'',
              port_Path = ''/usr/sbin/nginx'', port_State = ''LISTEN'',
              port_LocalIP = ''0.0.0.0'' \<rparr>"
  have f: "GetPortInfoByPort machine 8080 = Inr [?r]"
    by (simp add: GetPortInfoByPort_def machine_ports)
  have d: "GetPortInfoByPort machine 8080 = GetOpenPorts machine
           \<or> GetPortInfoByPort machine 8080 = GetPortInfoByPort machine 8080
           \<or> GetPortInfoByPort machine 8080 = GetPortsByPID machine 0" by simp
  have m: "?r \<in> set [?r]" by simp
  from ports_only_LISTEN[OF range_machine d f m] f show ?thesis by blast
qed

theorem filters_after_normalization_witness:
  "GetPortInfoByPort machine 22 =
     Inr [\<lparr> port_Port = 22, port_Protocol = ''TCP'', port_PID = 7, port_Name = [],
            port_Path = [], port_State = ''LISTEN'', port_LocalIP = ''127.0.0.1'' \<rparr>]
   \<and> GetPortsByPID machine 42 =
     Inr [\<lparr> port_Port = 8080, port_Protocol = ''TCP'', port_PID = 42, port_Name = ''nginx'',
            port_Path = ''/usr/sbin/nginx'', port_State = ''LISTEN'',
            port_LocalIP = ''0.0.0.0'' \<rparr>]"
  using filters_after_normalization[of machine 22 42] by (simp add: machine_ports)

theorem ports_protocol_TCP_witness:
  "GetOpenPorts machine =
     Inr [\<lparr> port_Port = 22, port_Protocol = ''TCP'', port_PID = 7, port_Name = [],
            port_Path = [], port_State = ''LISTEN'', port_LocalIP = ''127.0.0.1'' \<rparr>,
          \<lparr> port_Port = 8080, port_Protocol = ''TCP'', port_PID = 42, port_Name = ''nginx'',
            port_Path = ''/usr/sbin/nginx'', port_State = ''LISTEN'',
            port_LocalIP = ''0.0.0.0'' \<rparr>]
   \<and> port_Protocol (portInfoOf machine (listening ''0.0.0.0'' 8080 42)) = ''TCP''"
proof -
  have p: "portInfoOf machine (listening ''0.0.0.0'' 8080 42)
             = \<lparr> port_Port = 8080, port_Protocol = ''TCP'', port_PID = 42, port_Name = ''nginx'',
                 port_Path = ''/usr/sbin/nginx'', port_State = ''LISTEN'',
                 port_LocalIP = ''0.0.0.0'' \<rparr>"
    by (simp add: portInfoOf_def procName_def exePath_def getProtocol_def listening_def
        machine_sel nginx_sel ToLower_def isASCII_def toLowerByte_def)
  have m: "portInfoOf machine (listening ''0.0.0.0'' 8080 42)
             \<in> set [\<lparr> port_Port = 22, port_Protocol = ''TCP'', port_PID = 7, port_Name = [],
            port_Path = [], port_State = ''LISTEN'', port_LocalIP = ''127.0.0.1'' \<rparr>,
          \<lparr> port_Port = 8080, port_Protocol = ''TCP'', port_PID = 42, port_Name = ''nginx'',
            port_Path = ''/usr/sbin/nginx'', port_State = ''LISTEN'',
            port_LocalIP = ''0.0.0.0'' \<rparr>]"
    unfolding p by simp
  from ports_protocol_TCP[OF range_machine machine_ports m] machine_ports
  show ?thesis by simp
qed

text \<open>
  The scenario of the specification: systemd of root at pid 100 and Chrome of alice at
  pid 4000. The listing holds Chrome (and the web server of www), not systemd. On the
  machine with the name that lower-cases to \<open>init\<close> the listing is empty.
\<close>

theorem user_applications_classification_witness:
  "process_Processes machine = Inr [chrome, systemd, nginx]
   \<and> GetUserApplications machine =
       Inr [\<lparr> proc_PID = 42, proc_Name = ''nginx'', proc_Path = ''/usr/sbin/nginx'',
              proc_Status = ''S'', proc_User = ''www'', proc_StartTime = [] \<rparr>,
            \<lparr> proc_PID = 4000, proc_Name = ''Chrome'', proc_Path = ''/usr/bin/chrome'',
              proc_Status = ''R'', proc_User = ''alice'', proc_StartTime = [] \<rparr>]
   \<and> userProcessInfo machine systemd = None
   \<and> (isSystemProcess machine ''systemd'' (getSystemPrefixes (GOOS machine))
        \<or> isSystemUser machine (owningUser systemd) (GOOS machine)
        \<or> owningUser systemd = [])
   \<and> isSystemProcess machine_unicode ([CHR 0xC4, CHR 0xB0] @ ''NIT'')
        (getSystemPrefixes ''linux'')
   \<and> GetUserApplications machine_unicode = Inr []"
proof -
  from user_applications_classification[OF machine_sel(6)]
  have "\<forall>p name exe. p_Name p = (name, None) \<and> p_Exe p = Inr exe \<longrightarrow>
           (userProcessInfo machine p = None \<longleftrightarrow>
              isSystemProcess machine name (getSystemPrefixes (GOOS machine))
              \<or> isSystemUser machine (owningUser p) (GOOS machine)
              \<or> owningUser p = [])"
    by blast
  then have "userProcessInfo machine systemd = None \<longleftrightarrow>
              isSystemProcess machine ''systemd'' (getSystemPrefixes (GOOS machine))
              \<or> isSystemUser machine (owningUser systemd) (GOOS machine)
              \<or> owningUser systemd = []"
    using systemd_sel(2,3) by blast
  then show ?thesis
    using machine_sel(6) machine_apps linux_userProcessInfo(2)[OF machine_sel(1)]
      machine_unicode_apps
    by simp
qed

text \<open>
  A process of alice named defunct, whose path cannot be read, is excluded although its
  name matches no prefix and its user is neither a system account nor empty; a process
  whose path reads as the empty string is listed with an empty path.
\<close>

theorem user_applications_counterexample:
  "process_Processes machine_paths = Inr [defunct, pathless]
   \<and> p_Name defunct = (''defunct'', None) \<and> p_Username defunct = Inr ''alice''
   \<and> \<not> isSystemProcess machine_paths ''defunct'' (getSystemPrefixes (GOOS machine_paths))
   \<and> \<not> isSystemUser machine_paths ''alice'' (GOOS machine_paths)
   \<and> GetUserApplications machine_paths =
       Inr [\<lparr> proc_PID = 6000, proc_Name = ''helper'', proc_Path = [],
              proc_Status = ''R'', proc_User = ''alice'', proc_StartTime = [] \<rparr>]"
proof -
  have g: "GOOS machine_paths = ''linux''"
    and p: "process_Processes machine_paths = Inr [defunct, pathless]"
    by (simp_all add: machine_paths_def machine_def)
  show ?thesis
    by (simp add: g p defunct_sel linux_prefixes linux_users GetUserApplications_def
        collectUserProcs_def linux_userProcessInfo[OF g])
qed

theorem canonical_sort_order_witness:
  "GetUserApplications machine =
       Inr [\<lparr> proc_PID = 42, proc_Name = ''nginx'', proc_Path = ''/usr/sbin/nginx'',
              proc_Status = ''S'', proc_User = ''www'', proc_StartTime = [] \<rparr>,
            \<lparr> proc_PID = 4000, proc_Name = ''Chrome'', proc_Path = ''/usr/bin/chrome'',
              proc_Status = ''R'', proc_User = ''alice'', proc_StartTime = [] \<rparr>]
   \<and> sorted [42, 4000 :: int]
   \<and> GetOpenPorts machine =
     Inr [\<lparr> port_Port = 22, port_Protocol = ''TCP'', port_PID = 7, port_Name = [],
            port_Path = [], port_State = ''LISTEN'', port_LocalIP = ''127.0.0.1'' \<rparr>,
          \<lparr> port_Port = 8080, port_Protocol = ''TCP'', port_PID = 42, port_Name = ''nginx'',
            port_Path = ''/usr/sbin/nginx'', port_State = ''LISTEN'',
            port_LocalIP = ''0.0.0.0'' \<rparr>]
   \<and> sorted [22, 8080 :: nat]"
  using canonical_sort_order[of machine _ _] machine_apps machine_ports by simp

lemma machine_usage:
  "GetProcessResourceUsage machine 42 =
     Inr \<lparr> ru_PID = 42, ru_Name = ''nginx'', ru_CPUPercent = 250, ru_MemoryPercent = 3,
           ru_MemoryRSS = 512, ru_MemoryVMS = 4096, ru_MemoryHuman = ''512 B'',
           ru_CPUHuman = ''100%'', ru_Threads = 4, ru_OpenFiles = 0 \<rparr>"
  "GetProcessResourceUsage machine 4000 = Inl (Error ''permission denied'')"
  "GetProcessResourceUsage machine 7 = Inl (Error ''process does not exist'')"
  by (simp_all add: GetProcessResourceUsage_def machine_sel nginx_sel chrome_sel
      FormatBytes_def FormatCPU_def itoa.simps digit_def)

text \<open>
  Pid 7 does not exist, the memory of pid 4000 cannot be read, and pid 42 is sampled
  although its open files cannot be counted: the getter returns 0 with its error, and
  the record has 0 open files.
\<close>

theorem resource_error_contract_witness:
  "GetProcessResourceUsage machine 7 = Inl (Error ''process does not exist'')
   \<and> GetProcessResourceUsage machine 4000 = Inl (Error ''permission denied'')
   \<and> p_NumFDs nginx = (0, Some (Error ''not implemented''))
   \<and> (\<exists>usage. GetProcessResourceUsage machine 42 = Inr usage \<and> ru_PID usage = 42
         \<and> ru_Threads usage = 4 \<and> ru_OpenFiles usage = 0)"
proof -
  have a: "GetProcessResourceUsage machine 7 = Inl (Error ''process does not exist'')"
    using resource_error_contract[of machine 7 "Error ''process does not exist''"]
    by (simp add: machine_sel)
  have b: "GetProcessResourceUsage machine 4000 = Inl (Error ''permission denied'')"
    using resource_error_contract[of machine 4000 "Error ''permission denied''"]
    by (simp add: machine_sel chrome_sel)
  have c: "\<exists>usage. GetProcessResourceUsage machine 42 = Inr usage \<and> ru_PID usage = 42
         \<and> ru_Threads usage = 4 \<and> ru_OpenFiles usage = 0"
    using resource_error_contract[of machine 42 "Error []" nginx
        "Some \<lparr> mem_RSS = 512, mem_VMS = 4096 \<rparr>"]
    by (auto simp: machine_sel nginx_sel)
  show ?thesis using a b c by (simp add: nginx_sel)
qed

text \<open>
  The count of the open files of pid 43 fails after three files have been counted: the
  getter returns 3 with its error, the call succeeds, and the record has 3 open files,
  not 0.
\<close>

theorem resource_partial_sample_counterexample:
  "process_NewProcess machine_busy 43 = Inr busy
   \<and> p_NumFDs busy = (3, Some (Error ''permission denied''))
   \<and> GetProcessResourceUsage machine_busy 43 =
       Inr \<lparr> ru_PID = 43, ru_Name = ''busy'', ru_CPUPercent = 250, ru_MemoryPercent = 3,
             ru_MemoryRSS = 512, ru_MemoryVMS = 4096, ru_MemoryHuman = ''512 B'',
             ru_CPUHuman = ''100%'', ru_Threads = 4, ru_OpenFiles = 3 \<rparr>"
proof -
  have n: "process_NewProcess machine_busy 43 = Inr busy"
    by (simp add: machine_busy_def machine_def)
  have s: "p_Name busy = (''busy'', None)" "p_CPUPercent busy = (250, None)"
    "p_MemoryPercent busy = (3, None)"
    "p_MemoryInfo busy = Inr (Some \<lparr> mem_RSS = 512, mem_VMS = 4096 \<rparr>)"
    "p_NumThreads busy = (4, None)" "p_NumFDs busy = (3, Some (Error ''permission denied''))"
    by (simp_all add: busy_def nginx_def)
  show ?thesis
    by (simp add: GetProcessResourceUsage_def n s FormatBytes_def FormatCPU_def itoa.simps
        digit_def)
qed

text \<open>The web server uses two and a half cores: its record says 250, rendered 100%.\<close>

theorem cpu_percent_counterexample:
  "GetProcessResourceUsage machine 42 =
     Inr \<lparr> ru_PID = 42, ru_Name = ''nginx'', ru_CPUPercent = 250, ru_MemoryPercent = 3,
           ru_MemoryRSS = 512, ru_MemoryVMS = 4096, ru_MemoryHuman = ''512 B'',
           ru_CPUHuman = ''100%'', ru_Threads = 4, ru_OpenFiles = 0 \<rparr>
   \<and> (250 :: real) > 100"
  by (simp add: machine_usage)

theorem cpu_percent_rendering_witness:
  "GetProcessResourceUsage machine 42 =
     Inr \<lparr> ru_PID = 42, ru_Name = ''nginx'', ru_CPUPercent = 250, ru_MemoryPercent = 3,
           ru_MemoryRSS = 512, ru_MemoryVMS = 4096, ru_MemoryHuman = ''512 B'',
           ru_CPUHuman = ''100%'', ru_Threads = 4, ru_OpenFiles = 0 \<rparr>
   \<and> fst (p_CPUPercent nginx) = 250
   \<and> FormatCPU 250 = ''100%''
   \<and> FormatCPU 0.001 = ''< 0.01%''"
  using cpu_percent_rendering[of machine 42 _ 250] cpu_percent_rendering[of machine 42 _ "0.001"]
    machine_usage(1)
  by (simp add: nginx_sel)


lemma winhost_sel:
  "GOOS winhost = ''windows''"
  "powershell_services winhost = Inr ''WARNING''"
  "powershell_windows winhost = Inr (''12|shell| '' @ [CHR 0x0A])"
  "json_Unmarshal_slice winhost ''WARNING'' = Inl (Error ''invalid character'')"
  "json_Unmarshal_object winhost ''WARNING'' = Inl (Error ''invalid character'')"
  by (simp_all add: winhost_def machine_def)


lemma ParseInt32_samples:
  "ParseInt32 ''42'' = (42, None)" "ParseInt32 ''7'' = (7, None)" "ParseInt32 ''0'' = (0, None)"
  "ParseInt32 ''4000'' = (4000, None)" "ParseInt32 ''12'' = (12, None)"
  "ParseInt32 ''-'' = (0, Some (Error ''invalid syntax''))"
  by (simp_all add: ParseInt32_def ParseUint32_def isDigit_def digitVal_def Let_def)





lemma machine_windows:
  "linuxWindow machine ''0x01 0 4000 pc Inbox'' =
     Some \<lparr> win_Title = ''Inbox'', win_PID = 4000, win_Process = ''chrome'',
            win_AppName = ''chrome'', win_Geometry = [] \<rparr>"
  "linuxWindow machine ''0x02 0 0 pc Desktop'' =
     Some \<lparr> win_Title = ''Desktop'', win_PID = 0, win_Process = [], win_AppName = [],
            win_Geometry = [] \<rparr>"
  by (simp_all add: linuxWindow_def Fields_def isSpace_def ParseInt32_samples
      getProcessName_def machine_sel TrimSpace_def Let_def)

text \<open>
  C4 at the failing input. On Linux, \<open>wmctrl -lp\<close> lists a window with pid 0 and
  \<open>ps\<close> finds no process for it: \<open>GetOpenWindows\<close> emits the window with an empty owner
  process name. On Windows, a window title of one space is emitted as an empty title.
\<close>

theorem GetOpenWindows_blank_fields:
  "wmctrl_lp machine =
     Inr (''0x01 0 4000 pc Inbox'' @ [CHR 0x0A] @ ''0x02 0 0 pc Desktop'' @ [CHR 0x0A])
   \<and> ps_comm machine 0 = Inl (Error ''exit status 1'')
   \<and> GetOpenWindows machine =
       Inr [\<lparr> win_Title = ''Inbox'', win_PID = 4000, win_Process = ''chrome'',
              win_AppName = ''chrome'', win_Geometry = [] \<rparr>,
            \<lparr> win_Title = ''Desktop'', win_PID = 0, win_Process = [], win_AppName = [],
              win_Geometry = [] \<rparr>]
   \<and> powershell_windows winhost = Inr (''12|shell| '' @ [CHR 0x0A])
   \<and> GetOpenWindows winhost =
       Inr [\<lparr> win_Title = [], win_PID = 12, win_Process = ''shell'', win_AppName = ''shell'',
              win_Geometry = [] \<rparr>]"
proof -
  have l: "Split (TrimSpace (''0x01 0 4000 pc Inbox'' @ [CHR 0x0A] @ ''0x02 0 0 pc Desktop''
             @ [CHR 0x0A])) [CHR 0x0A] = [''0x01 0 4000 pc Inbox'', ''0x02 0 0 pc Desktop'']"
    by (simp add: Split_def TrimSpace_def isSpace_def)
  have a: "GetOpenWindows machine =
       Inr [\<lparr> win_Title = ''Inbox'', win_PID = 4000, win_Process = ''chrome'',
              win_AppName = ''chrome'', win_Geometry = [] \<rparr>,
            \<lparr> win_Title = ''Desktop'', win_PID = 0, win_Process = [], win_AppName = [],
              win_Geometry = [] \<rparr>]"
    using l by (simp add: GetOpenWindows_def getLinuxWindows_def machine_sel machine_windows)
  have s: "Split (TrimSpace (''12|shell| '' @ [CHR 0x0A])) [CHR 0x0A] = [''12|shell|'']"
    by (simp add: Split_def TrimSpace_def isSpace_def)
  have p: "windowsWindow ''12|shell|'' =
       Some \<lparr> win_Title = [], win_PID = 12, win_Process = ''shell'', win_AppName = ''shell'',
              win_Geometry = [] \<rparr>"
    by (simp add: windowsWindow_def Split_def TrimSpace_def isSpace_def ParseInt32_samples
        Let_def)
  have b: "GetOpenWindows winhost =
       Inr [\<lparr> win_Title = [], win_PID = 12, win_Process = ''shell'', win_AppName = ''shell'',
              win_Geometry = [] \<rparr>]"
    using s by (simp add: GetOpenWindows_def getWindowsWindows_def winhost_sel p)
  show ?thesis using a b by (simp add: machine_sel winhost_sel)
qed

end
